theory Spec2Isabelle
  imports Complex_Main
begin

section \<open>Myokit symbolic expressions (myokit/_expressions.py)\<close>

subsection \<open>Data model\<close>

text \<open>
  Modelled from the spec: the class \<open>myokit.Unit\<close> is not part of
  \<open>_expressions.py\<close>. The spec describes a unit as seven rational exponents, one per
  base dimension, and a scale factor (logarithmic magnitude); \<open>dimensionless\<close> has
  all-zero exponents and unit scale.
\<close>

datatype unit = Unit (exponents: "rat list") (multiplier: rat)

definition dimensionless :: unit where
  "dimensionless = Unit [0, 0, 0, 0, 0, 0, 0] 0"

text \<open>
  The value of a \<open>Name\<close>: a \<open>myokit.Variable\<close>, identified by its object identity
  (\<open>id(var)\<close>), or a plain string, which the constructor allows for debugging.
\<close>

datatype handle = Str string | Var nat

text \<open>The concrete classes, grouped by their abstract base class.\<close>

datatype prefix_kind = PrefixPlus | PrefixMinus | Not'

datatype infix_kind =
    Plus' | Minus | Multiply | Divide | Quotient | Remainder | Power'
  | Equal | NotEqual | More | Less | MoreEqual | LessEqual | And' | Or'

datatype func_kind =
    Sqrt | Sin | Cos | Tan | ASin | ACos | ATan | Exp | Log | Log10
  | Floor | Ceil | Abs | If' | Piecewise

text \<open>
  An expression object. A \<open>Number\<close> holds a float, idealised here as an exact rational,
  and an optional unit. The operands of the other classes are expression objects; the
  checks of the constructors are the functions \<open>new_...\<close> below.
\<close>

datatype expr =
    Number rat "unit option"
  | Name handle
  | Derivative expr
  | PartialDerivative expr expr
  | InitialValue expr
  | Prefix prefix_kind expr
  | Infix infix_kind expr expr
  | Function func_kind "expr list"

text \<open>\<open>type(e)\<close>: the class of an expression object.\<close>

datatype kind =
    KNumber | KName | KDerivative | KPartialDerivative | KInitialValue
  | KPrefix prefix_kind | KInfix infix_kind | KFunction func_kind

fun type_of :: "expr \<Rightarrow> kind" where
  "type_of (Number v u) = KNumber"
| "type_of (Name h) = KName"
| "type_of (Derivative a) = KDerivative"
| "type_of (PartialDerivative a b) = KPartialDerivative"
| "type_of (InitialValue a) = KInitialValue"
| "type_of (Prefix k a) = KPrefix k"
| "type_of (Infix k a b) = KInfix k"
| "type_of (Function k ops) = KFunction k"

text \<open>Expression precedence levels.\<close>

definition FUNCTION_CALL :: nat where "FUNCTION_CALL = 70"
definition POWER :: nat where "POWER = 60"
definition PREFIX :: nat where "PREFIX = 50"
definition PRODUCT :: nat where "PRODUCT = 40"
definition SUM' :: nat where "SUM' = 30"
definition CONDITIONAL :: nat where "CONDITIONAL = 20"
definition CONDITION_AND :: nat where "CONDITION_AND = 10"
definition LITERAL :: nat where "LITERAL = 0"

text \<open>The class attribute \<open>_rbp\<close> of an infix class.\<close>

fun infix_rbp :: "infix_kind \<Rightarrow> nat" where
  "infix_rbp Plus' = SUM'"
| "infix_rbp Minus = SUM'"
| "infix_rbp Multiply = PRODUCT"
| "infix_rbp Divide = PRODUCT"
| "infix_rbp Quotient = PRODUCT"
| "infix_rbp Remainder = PRODUCT"
| "infix_rbp Power' = POWER"
| "infix_rbp And' = CONDITION_AND"
| "infix_rbp Or' = CONDITION_AND"
| "infix_rbp k = CONDITIONAL"

fun rbp :: "expr \<Rightarrow> nat" where
  "rbp (Number v u) = LITERAL"
| "rbp (Name h) = LITERAL"
| "rbp (Derivative a) = FUNCTION_CALL"
| "rbp (PartialDerivative a b) = FUNCTION_CALL"
| "rbp (InitialValue a) = FUNCTION_CALL"
| "rbp (Prefix k a) = PREFIX"
| "rbp (Infix k a b) = infix_rbp k"
| "rbp (Function k ops) = FUNCTION_CALL"

text \<open>The class attributes \<open>_rep\<close> and \<open>_fname\<close>.\<close>

fun prefix_rep :: "prefix_kind \<Rightarrow> string" where
  "prefix_rep PrefixPlus = ''+''"
| "prefix_rep PrefixMinus = ''-''"
| "prefix_rep Not' = ''not''"

fun infix_rep :: "infix_kind \<Rightarrow> string" where
  "infix_rep Plus' = ''+''"
| "infix_rep Minus = ''-''"
| "infix_rep Multiply = ''*''"
| "infix_rep Divide = ''/''"
| "infix_rep Quotient = ''//''"
| "infix_rep Remainder = ''%''"
| "infix_rep Power' = ''^''"
| "infix_rep Equal = ''==''"
| "infix_rep NotEqual = ''!=''"
| "infix_rep More = ''>''"
| "infix_rep Less = ''<''"
| "infix_rep MoreEqual = ''>=''"
| "infix_rep LessEqual = ''<=''"
| "infix_rep And' = ''and''"
| "infix_rep Or' = ''or''"

fun fname :: "func_kind \<Rightarrow> string" where
  "fname Sqrt = ''sqrt''"
| "fname Sin = ''sin''"
| "fname Cos = ''cos''"
| "fname Tan = ''tan''"
| "fname ASin = ''asin''"
| "fname ACos = ''acos''"
| "fname ATan = ''atan''"
| "fname Exp = ''exp''"
| "fname Log = ''log''"
| "fname Log10 = ''log10''"
| "fname Floor = ''floor''"
| "fname Ceil = ''ceil''"
| "fname Abs = ''abs''"
| "fname If' = ''if''"
| "fname Piecewise = ''piecewise''"

subsection \<open>Strings\<close>

text \<open>Python's \<open>str(n)\<close> for a natural number: its decimal digits.\<close>

definition digit_char :: "nat \<Rightarrow> char" where
  "digit_char d = ''0123456789'' ! d"

function str_nat :: "nat \<Rightarrow> string" where
  "str_nat n = (if n < 10 then [digit_char n] else str_nat (n div 10) @ [digit_char (n mod 10)])"
  by pat_completeness auto
termination
  by (relation "measure id") auto

declare str_nat.simps [simp del]

text \<open>
  The slices of a string that \<open>Number.__init__\<close> takes: \<open>s[-n:]\<close>, \<open>s[:-n]\<close> and
  \<open>s[-m:-n]\<close>. A string shorter than the slice gives what Python gives: the natural
  number subtraction stops at zero as the slice bounds do.
\<close>

definition last_chars :: "nat \<Rightarrow> string \<Rightarrow> string" where
  "last_chars n s = drop (length s - n) s"

definition but_last_chars :: "nat \<Rightarrow> string \<Rightarrow> string" where
  "but_last_chars n s = take (length s - n) s"

definition slice_from_end :: "nat \<Rightarrow> nat \<Rightarrow> string \<Rightarrow> string" where
  "slice_from_end m n s = drop (length s - m) (take (length s - n) s)"

subsection \<open>The text of a number\<close>

text \<open>
  What the module takes from outside: \<open>myokit.strfloat\<close>, which formats a float, and
  \<open>str(unit)\<close>. Neither is part of \<open>_expressions.py\<close>; both are parameters.
\<close>

record fmt =
  strfloat :: "rat \<Rightarrow> string"
  unit_str :: "unit \<Rightarrow> string"

text \<open>
  \<open>Number.__init__\<close> computes the attribute \<open>_str\<close>: the formatted value with
  \<open>5.0\<close> turned into \<open>5\<close>, \<open>1e-05\<close> into \<open>1e-5\<close>, \<open>1e+00\<close> into \<open>1\<close>,
  \<open>1e+05\<close> into \<open>1e5\<close> and \<open>1e+15\<close> into \<open>1e15\<close>, followed by the unit when there is
  one and it is not dimensionless.
\<close>

definition strip_float :: "string \<Rightarrow> string" where
  "strip_float s =
     (if last_chars 2 s = ''.0'' then but_last_chars 2 s
      else if slice_from_end 4 1 s = ''e-0'' then but_last_chars 2 s @ last_chars 1 s
      else if slice_from_end 4 2 s = ''e+'' then
        (if last_chars 2 s = ''00'' then but_last_chars 4 s
         else if slice_from_end 2 1 s = ''0'' then but_last_chars 3 s @ last_chars 1 s
         else but_last_chars 3 s @ last_chars 2 s)
      else s)"

definition number_str :: "fmt \<Rightarrow> rat \<Rightarrow> unit option \<Rightarrow> string" where
  "number_str f v u =
     strip_float (strfloat f v) @
     (case u of
        None \<Rightarrow> []
      | Some un \<Rightarrow> (if un \<noteq> dimensionless then '' '' @ unit_str f un else []))"

subsection \<open>Rendering in mmt syntax: \<open>code\<close>\<close>

text \<open>
  What \<open>Name._code\<close> asks of a variable and of the component \<open>c\<close> it renders for.
  The classes \<open>Variable\<close> and \<open>Component\<close> are not part of \<open>_expressions.py\<close>;
  a component is a number here, \<open>alias_for\<close> gives \<open>None\<close> where the source's
  raises \<open>KeyError\<close>, and \<open>component_true\<close> is the truth value of a component
  in \<open>if c\<close>: a component is a container of variables, and Python takes a container
  without elements for false. \<open>None\<close> is false.
\<close>

record names =
  is_nested :: "nat \<Rightarrow> bool"
  name :: "nat \<Rightarrow> string"
  qname :: "nat \<Rightarrow> nat option \<Rightarrow> string"
  alias_for :: "nat \<Rightarrow> nat \<Rightarrow> string option"
  component_true :: "nat \<Rightarrow> bool"

definition name_code :: "names \<Rightarrow> nat option \<Rightarrow> handle \<Rightarrow> string" where
  "name_code nm c h =
     (case h of
        Var v \<Rightarrow>
          (if is_nested nm v then name nm v
           else (case c of
                   Some cid \<Rightarrow>
                     (if component_true nm cid
                      then (case alias_for nm cid v of
                              Some a \<Rightarrow> a
                            | None \<Rightarrow> qname nm v c)
                      else qname nm v c)
                 | None \<Rightarrow> qname nm v c))
      | Str s \<Rightarrow> ''str:'' @ s)"

text \<open>The arguments of a function call, separated by a comma and a space.\<close>

fun comma_sep :: "string list \<Rightarrow> string" where
  "comma_sep [] = []"
| "comma_sep [s] = s"
| "comma_sep (s # t # ss) = s @ '', '' @ comma_sep (t # ss)"

text \<open>
  The methods \<open>_code(b, c)\<close>, which write to the string buffer \<open>b\<close>; the model returns
  what is written. \<open>InfixExpression._code\<close> tests the brackets of each operand where it
  writes it.
\<close>

fun code' :: "fmt \<Rightarrow> names \<Rightarrow> nat option \<Rightarrow> expr \<Rightarrow> string" where
  "code' f nm c (Number v u) = number_str f v u"
| "code' f nm c (Name h) = name_code nm c h"
| "code' f nm c (Derivative a) = ''dot('' @ code' f nm c a @ '')''"
| "code' f nm c (PartialDerivative a b) =
     ''partial('' @ code' f nm c a @ code' f nm c b @ '')''"
| "code' f nm c (InitialValue a) = ''init('' @ code' f nm c a @ '')''"
| "code' f nm c (Prefix k a) =
     (if k = Not' then ''not '' else prefix_rep k) @
     (if rbp a > LITERAL \<and> rbp a < rbp (Prefix k a)
      then ''('' @ code' f nm c a @ '')''
      else code' f nm c a)"
| "code' f nm c (Infix k a b) =
     (if rbp a > LITERAL \<and> rbp a < rbp (Infix k a b)
      then ''('' @ code' f nm c a @ '')''
      else code' f nm c a)
     @ '' '' @ infix_rep k @ '' '' @
     (if rbp b > LITERAL \<and> rbp b \<le> rbp (Infix k a b)
      then ''('' @ code' f nm c b @ '')''
      else code' f nm c b)"
| "code' f nm c (Function k ops) =
     fname k @ ''('' @ comma_sep (map (code' f nm c) ops) @ '')''"

text \<open>\<open>code(component=None)\<close>, the public method.\<close>

definition code :: "fmt \<Rightarrow> names \<Rightarrow> nat option \<Rightarrow> expr \<Rightarrow> string" where
  "code f nm component e = code' f nm component e"

text \<open>
  The rule of the specification for an operand of an infix expression, in its words:
  the left operand is parenthesised iff \<open>LITERAL < rbp(left) < rbp(self)\<close>, the right
  operand iff \<open>LITERAL < rbp(right) \<le> rbp(self)\<close>.
\<close>

definition spec_left_parenthesised :: "expr \<Rightarrow> expr \<Rightarrow> bool" where
  "spec_left_parenthesised self left \<longleftrightarrow> LITERAL < rbp left \<and> rbp left < rbp self"

definition spec_right_parenthesised :: "expr \<Rightarrow> expr \<Rightarrow> bool" where
  "spec_right_parenthesised self right \<longleftrightarrow> LITERAL < rbp right \<and> rbp right \<le> rbp self"

definition parenthesised :: "bool \<Rightarrow> string \<Rightarrow> string" where
  "parenthesised b s = (if b then ''('' @ s @ '')'' else s)"

text \<open>
  A formatter for the examples: Python writes a float of integral value as its digits
  followed by \<open>.0\<close>.
\<close>

definition integral_strfloat :: "rat \<Rightarrow> string" where
  "integral_strfloat v =
     (if v < 0 then ''-'' else []) @ str_nat (nat \<bar>\<lfloor>v\<rfloor>\<bar>) @ ''.0''"

definition example_fmt :: fmt where
  "example_fmt = \<lparr> strfloat = integral_strfloat, unit_str = (\<lambda>u. ''[?]'') \<rparr>"

definition example_names :: names where
  "example_names =
     \<lparr> is_nested = (\<lambda>v. False), name = (\<lambda>v. ''v'' @ str_nat v),
       qname = (\<lambda>v c. ''c.v'' @ str_nat v), alias_for = (\<lambda>c v. None),
       component_true = (\<lambda>c. True) \<rparr>"

subsection \<open>Errors\<close>

text \<open>
  The exceptions the module raises or lets through. \<open>EvalError\<close> and
  \<open>EvalUnitError\<close> are the module's internal exceptions; they carry the expression
  that failed.
\<close>

datatype error =
    IntegrityError
  | NotImplementedError
  | TypeError
  | AttributeError
  | NameError
  | ValueError
  | IndexError
  | ZeroDivisionError
  | OverflowError
  | RecursionError
  | EvalError expr error
  | EvalUnitError expr string
  | IncompatibleUnitError string
  | NumericalError string

subsection \<open>Constructors\<close>

fun is_Name :: "expr \<Rightarrow> bool" where
  "is_Name (Name h) = True"
| "is_Name e = False"

fun is_InitialValue :: "expr \<Rightarrow> bool" where
  "is_InitialValue (InitialValue a) = True"
| "is_InitialValue e = False"

text \<open>
  \<open>Derivative.__init__\<close>, \<open>PartialDerivative.__init__\<close> and
  \<open>InitialValue.__init__\<close> raise \<open>IntegrityError\<close> unless the operands are names
  (or, for the second operand of a partial derivative, an initial value).
\<close>

definition new_Derivative :: "expr \<Rightarrow> error + expr" where
  "new_Derivative op = (if \<not> is_Name op then Inl IntegrityError else Inr (Derivative op))"

definition new_PartialDerivative :: "expr \<Rightarrow> expr \<Rightarrow> error + expr" where
  "new_PartialDerivative var1 var2 =
     (if \<not> is_Name var1 then Inl IntegrityError
      else if \<not> (is_Name var2 \<or> is_InitialValue var2) then Inl IntegrityError
      else Inr (PartialDerivative var1 var2))"

definition new_InitialValue :: "expr \<Rightarrow> error + expr" where
  "new_InitialValue var = (if \<not> is_Name var then Inl IntegrityError else Inr (InitialValue var))"

text \<open>
  The class attribute \<open>_nargs\<close>: the numbers of arguments a function class accepts
  (\<open>None\<close> for \<open>Piecewise\<close>, which checks its own).
\<close>

fun nargs :: "func_kind \<Rightarrow> nat list option" where
  "nargs Log = Some [1, 2]"
| "nargs If' = Some [3]"
| "nargs Piecewise = None"
| "nargs k = Some [1]"

text \<open>\<open>Function.__init__(self, *ops)\<close>.\<close>

definition Function_init :: "func_kind \<Rightarrow> expr list \<Rightarrow> error + expr" where
  "Function_init k ops =
     (case nargs k of
        Some ns \<Rightarrow> (if \<not> length ops \<in> set ns then Inl IntegrityError else Inr (Function k ops))
      | None \<Rightarrow> Inr (Function k ops))"

text \<open>
  Calling a function class with the operands \<open>ops\<close>. \<open>If.__init__(self, i, t, e)\<close>
  takes three arguments, so any other number is Python's \<open>TypeError\<close>;
  \<open>Piecewise.__init__\<close> wants an odd number of operands, three or more.
\<close>

definition new_Function :: "func_kind \<Rightarrow> expr list \<Rightarrow> error + expr" where
  "new_Function k ops =
     (if k = If' then
        (if length ops \<noteq> 3 then Inl TypeError else Function_init If' ops)
      else if k = Piecewise then
        (case Function_init Piecewise ops of
           Inl err \<Rightarrow> Inl err
         | Inr e \<Rightarrow>
             (if length ops mod 2 = 0 then Inl IntegrityError
              else if length ops < 3 then Inl IntegrityError
              else Inr e))
      else Function_init k ops)"

text \<open>
  An expression object that the constructors have built: every node passed the checks
  of its \<open>__init__\<close>.
\<close>

fun constructed :: "expr \<Rightarrow> bool" where
  "constructed (Number v u) = True"
| "constructed (Name h) = True"
| "constructed (Derivative a) = (constructed a \<and> new_Derivative a = Inr (Derivative a))"
| "constructed (PartialDerivative a b) =
     (constructed a \<and> constructed b
      \<and> new_PartialDerivative a b = Inr (PartialDerivative a b))"
| "constructed (InitialValue a) = (constructed a \<and> new_InitialValue a = Inr (InitialValue a))"
| "constructed (Prefix k a) = constructed a"
| "constructed (Infix k a b) = (constructed a \<and> constructed b)"
| "constructed (Function k ops) =
     (list_all constructed ops \<and> new_Function k ops = Inr (Function k ops))"

subsection \<open>Operands and the flags set at construction\<close>

text \<open>
  What iterating over an expression yields: \<open>__iter__\<close> is \<open>iter(self._operands)\<close>.
  \<open>InitialValue.__init__\<close> passes \<open>(var)\<close>, which is \<open>var\<close> itself and not a
  tuple, so the attribute \<open>_operands\<close> of an initial value is the name \<open>var\<close>, and
  iterating over it iterates over the operands of \<open>var\<close>.
\<close>

fun operands :: "expr \<Rightarrow> expr list" where
  "operands (Number v u) = []"
| "operands (Name h) = []"
| "operands (Derivative a) = [a]"
| "operands (PartialDerivative a b) = [a, b]"
| "operands (InitialValue a) = operands a"
| "operands (Prefix k a) = [a]"
| "operands (Infix k a b) = [a, b]"
| "operands (Function k ops) = ops"

lemma size_operands [termination_simp]: "x \<in> set (operands e) \<Longrightarrow> size x < size e"
proof (induction e)
  case (Function k ops)
  then show ?case by (auto simp: less_Suc_eq_le size_list_estimation')
qed auto

text \<open>
  \<open>Expression.__init__\<close> clears \<open>_has_partials\<close> and \<open>_has_initials\<close> and sets each
  where an operand has it set; \<open>PartialDerivative.__init__\<close> then sets
  \<open>_has_partials\<close>, and \<open>InitialValue.__init__\<close> sets \<open>_has_initials\<close>.
\<close>

function has_partials :: "expr \<Rightarrow> bool" where
  "has_partials e =
     (if type_of e = KPartialDerivative then True
      else list_ex has_partials (operands e))"
  by pat_completeness auto
termination
  by (relation "measure size") (auto simp: size_operands)

function has_initials :: "expr \<Rightarrow> bool" where
  "has_initials e =
     (if type_of e = KInitialValue then True
      else list_ex has_initials (operands e))"
  by pat_completeness auto
termination
  by (relation "measure size") (auto simp: size_operands)

declare has_partials.simps [simp del] has_initials.simps [simp del]

text \<open>
  The classes that \<open>isinstance\<close> can be asked about: a concrete class or one of the
  abstract base classes.
\<close>

datatype cls =
    Class kind
  | Expression | LhsExpression | PrefixExpression | InfixExpression | FunctionClass
  | UnaryDimensionlessFunction | Condition | PrefixCondition | InfixCondition
  | BinaryComparison

fun is_comparison :: "infix_kind \<Rightarrow> bool" where
  "is_comparison Equal = True"
| "is_comparison NotEqual = True"
| "is_comparison More = True"
| "is_comparison Less = True"
| "is_comparison MoreEqual = True"
| "is_comparison LessEqual = True"
| "is_comparison k = False"

fun is_infix_condition :: "infix_kind \<Rightarrow> bool" where
  "is_infix_condition And' = True"
| "is_infix_condition Or' = True"
| "is_infix_condition k = is_comparison k"

fun is_unary_dimensionless :: "func_kind \<Rightarrow> bool" where
  "is_unary_dimensionless Sin = True"
| "is_unary_dimensionless Cos = True"
| "is_unary_dimensionless Tan = True"
| "is_unary_dimensionless ASin = True"
| "is_unary_dimensionless ACos = True"
| "is_unary_dimensionless ATan = True"
| "is_unary_dimensionless Exp = True"
| "is_unary_dimensionless Log10 = True"
| "is_unary_dimensionless k = False"

fun is_subclass :: "kind \<Rightarrow> cls \<Rightarrow> bool" where
  "is_subclass k (Class k') = (k = k')"
| "is_subclass k Expression = True"
| "is_subclass k LhsExpression =
     (k = KName \<or> k = KDerivative \<or> k = KPartialDerivative \<or> k = KInitialValue)"
| "is_subclass k PrefixExpression = (case k of KPrefix p \<Rightarrow> True | _ \<Rightarrow> False)"
| "is_subclass k InfixExpression = (case k of KInfix i \<Rightarrow> True | _ \<Rightarrow> False)"
| "is_subclass k FunctionClass = (case k of KFunction g \<Rightarrow> True | _ \<Rightarrow> False)"
| "is_subclass k UnaryDimensionlessFunction =
     (case k of KFunction g \<Rightarrow> is_unary_dimensionless g | _ \<Rightarrow> False)"
| "is_subclass k Condition =
     (case k of KPrefix p \<Rightarrow> p = Not' | KInfix i \<Rightarrow> is_infix_condition i | _ \<Rightarrow> False)"
| "is_subclass k PrefixCondition = (k = KPrefix Not')"
| "is_subclass k InfixCondition = (case k of KInfix i \<Rightarrow> is_infix_condition i | _ \<Rightarrow> False)"
| "is_subclass k BinaryComparison = (case k of KInfix i \<Rightarrow> is_comparison i | _ \<Rightarrow> False)"

definition isinstance :: "expr \<Rightarrow> cls \<Rightarrow> bool" where
  "isinstance e c = is_subclass (type_of e) c"

text \<open>\<open>Expression.contains_type(kind)\<close>, with its shortcut through the two flags.\<close>

function contains_type :: "expr \<Rightarrow> cls \<Rightarrow> bool" where
  "contains_type e c =
     (if isinstance e c then True
      else if c = Class KPartialDerivative then has_partials e
      else if c = Class KInitialValue then has_initials e
      else list_ex (\<lambda>op. contains_type op c) (operands e))"
  by pat_completeness auto
termination
  by (relation "measure (\<lambda>(e, c). size e)") (auto simp: size_operands)

text \<open>
  The depth-first search that the flags stand for: \<open>contains_type\<close> without the two
  shortcuts.
\<close>

function contains_type_search :: "expr \<Rightarrow> cls \<Rightarrow> bool" where
  "contains_type_search e c =
     (if isinstance e c then True
      else list_ex (\<lambda>op. contains_type_search op c) (operands e))"
  by pat_completeness auto
termination
  by (relation "measure (\<lambda>(e, c). size e)") (auto simp: size_operands)

text \<open>\<open>Expression.walk()\<close> with no \<open>allowed_types\<close>: the nodes, depth first.\<close>

function walk :: "expr \<Rightarrow> expr list" where
  "walk e = e # concat (map walk (operands e))"
  by pat_completeness auto
termination
  by (relation "measure size") (auto simp: size_operands)

declare contains_type.simps [simp del] contains_type_search.simps [simp del]
  walk.simps [simp del]

subsection \<open>Canonical form, equality and hash\<close>

text \<open>
  The methods \<open>_polishb(b)\<close>, which write the reverse-polish form to the buffer \<open>b\<close>.
  A name writes its string, or \<open>var:\<close> and the identity of its variable.
  \<open>PartialDerivative._polishb\<close> writes its two operands one after the other, with
  nothing between them; \<open>InfixExpression._polishb\<close> and \<open>Function._polishb\<close> write
  a space before each operand.
\<close>

fun polishb :: "fmt \<Rightarrow> expr \<Rightarrow> string" where
  "polishb f (Number v u) = number_str f v u"
| "polishb f (Name h) =
     (case h of Str s \<Rightarrow> ''str:'' @ s | Var i \<Rightarrow> ''var:'' @ str_nat i)"
| "polishb f (Derivative a) = ''dot '' @ polishb f a"
| "polishb f (PartialDerivative a b) = ''partial '' @ polishb f a @ polishb f b"
| "polishb f (InitialValue a) = ''init '' @ polishb f a"
| "polishb f (Prefix PrefixPlus a) = polishb f a"
| "polishb f (Prefix PrefixMinus a) = ''~ '' @ polishb f a"
| "polishb f (Prefix Not' a) = ''not '' @ polishb f a"
| "polishb f (Infix k a b) = infix_rep k @ '' '' @ polishb f a @ '' '' @ polishb f b"
| "polishb f (Function k ops) =
     fname k @ '' '' @ str_nat (length ops) @ concat (map (\<lambda>op. '' '' @ polishb f op) ops)"

text \<open>
  \<open>_polish()\<close> returns the attribute \<open>_cached_polish\<close>, which it fills from
  \<open>_polishb\<close> on the first call; an expression does not change, so the cache holds
  this string whenever it is filled.
\<close>

definition polish :: "fmt \<Rightarrow> expr \<Rightarrow> string" where
  "polish f e = polishb f e"

text \<open>
  \<open>__eq__\<close>. \<open>Name\<close>, \<open>Derivative\<close>, \<open>PartialDerivative\<close> and \<open>InitialValue\<close>
  define their own: the same class and equal values or operands. Two variables are
  equal when they are the same object, two strings when they have the same characters.
  Every other class inherits \<open>Expression.__eq__\<close>: the same class and the same
  canonical form.
\<close>

fun eq :: "fmt \<Rightarrow> expr \<Rightarrow> expr \<Rightarrow> bool" where
  "eq f (Name h) other = (case other of Name h' \<Rightarrow> h = h' | _ \<Rightarrow> False)"
| "eq f (Derivative a) other = (case other of Derivative b \<Rightarrow> eq f a b | _ \<Rightarrow> False)"
| "eq f (PartialDerivative a1 a2) other =
     (case other of PartialDerivative b1 b2 \<Rightarrow> eq f a1 b1 \<and> eq f a2 b2 | _ \<Rightarrow> False)"
| "eq f (InitialValue a) other = (case other of InitialValue b \<Rightarrow> eq f a b | _ \<Rightarrow> False)"
| "eq f e other = (if type_of e \<noteq> type_of other then False else polish f e = polish f other)"

text \<open>
  \<open>__hash__\<close>: the hash of the canonical form, kept in \<open>_cached_hash\<close>. Python's hash
  of a string is the parameter \<open>hash_str\<close>.
\<close>

definition hash :: "(string \<Rightarrow> int) \<Rightarrow> fmt \<Rightarrow> expr \<Rightarrow> int" where
  "hash hash_str f e = hash_str (polish f e)"

subsection \<open>Cloning\<close>


text \<open>The results of a list of calls, up to the first that raises.\<close>

fun all_or_first_error :: "(error + 'a) list \<Rightarrow> error + 'a list" where
  "all_or_first_error [] = Inr []"
| "all_or_first_error (Inl err # rs) = Inl err"
| "all_or_first_error (Inr x # rs) =
     (case all_or_first_error rs of Inl err \<Rightarrow> Inl err | Inr xs \<Rightarrow> Inr (x # xs))"


subsection \<open>Values and arithmetic\<close>

text \<open>
  A Python float is an IEEE 754 double: a rational that 53 bits and an exponent in range
  represent, minus zero, an infinity (\<open>Infinity True\<close> is the negative one) or NaN.
  \<open>Finite 0\<close> is plus zero.
\<close>

datatype double = Finite rat | MinusZero | Infinity bool | NaN

fun val :: "double \<Rightarrow> rat" where
  "val (Finite r) = r"
| "val f = 0"

fun is_zero :: "double \<Rightarrow> bool" where
  "is_zero (Finite r) = (r = 0)"
| "is_zero MinusZero = True"
| "is_zero f = False"

fun is_inf :: "double \<Rightarrow> bool" where
  "is_inf (Infinity s) = True"
| "is_inf f = False"

text \<open>The sign bit; that of a NaN is not used.\<close>

fun sign_bit :: "double \<Rightarrow> bool" where
  "sign_bit (Finite r) = (r < 0)"
| "sign_bit MinusZero = True"
| "sign_bit (Infinity s) = s"
| "sign_bit NaN = False"

definition signed_zero :: "bool \<Rightarrow> double" where
  "signed_zero negative = (if negative then MinusZero else Finite 0)"

text \<open>
  Rounding to the nearest double, ties to the even mantissa: \<open>ilog2 x\<close> is the
  exponent \<open>e\<close> with \<open>2^e \<le> x < 2^(e+1)\<close> of a positive \<open>x\<close>, the doubles near
  \<open>x\<close> are the multiples of \<open>2^(e-52)\<close>, those below \<open>2^(-1022)\<close> the multiples of
  \<open>2^(-1074)\<close>, and a result of \<open>2^1024\<close> or more is an infinity. \<open>negative\<close> is the
  sign of the zero that an exact zero gives.
\<close>

definition pow2 :: "int \<Rightarrow> rat" where
  "pow2 e = (if 0 \<le> e then 2 ^ nat e else 1 / 2 ^ nat (- e))"

function bit_length :: "int \<Rightarrow> nat" where
  "bit_length n = (if n \<le> 0 then 0 else Suc (bit_length (n div 2)))"
  by pat_completeness auto
termination
  by (relation "measure nat") auto

declare bit_length.simps [simp del]

definition ilog2 :: "rat \<Rightarrow> int" where
  "ilog2 x =
     (if 1 \<le> x then int (bit_length \<lfloor>x\<rfloor>) - 1
      else - int (bit_length (\<lceil>1 / x\<rceil> - 1)))"

definition round_half_even :: "rat \<Rightarrow> int" where
  "round_half_even x =
     (let f = \<lfloor>x\<rfloor>; d = x - of_int f
      in if d < 1 / 2 then f
         else if 1 / 2 < d then f + 1
         else if even f then f else f + 1)"

definition round_double :: "bool \<Rightarrow> rat \<Rightarrow> double" where
  "round_double negative x =
     (if x = 0 then signed_zero negative
      else
        (let e = max (ilog2 \<bar>x\<bar>) (- 1022);
             q = pow2 (e - 52);
             y = of_int (round_half_even (x / q)) * q
         in if pow2 1024 \<le> \<bar>y\<bar> then Infinity (x < 0)
            else if y = 0 then signed_zero (x < 0)
            else Finite y))"

text \<open>The operations of IEEE 754 on doubles, as C's \<open>-\<close>, \<open>+\<close>, \<open>*\<close>, \<open>/\<close>,
  \<open>floor\<close>, \<open>ceil\<close>, \<open>fabs\<close>, \<open>fmod\<close>, \<open><\<close> and \<open>==\<close> compute them.\<close>

fun fneg :: "double \<Rightarrow> double" where
  "fneg (Finite r) = (if r = 0 then MinusZero else Finite (- r))"
| "fneg MinusZero = Finite 0"
| "fneg (Infinity s) = Infinity (\<not> s)"
| "fneg NaN = NaN"

definition fadd :: "double \<Rightarrow> double \<Rightarrow> double" where
  "fadd a b =
     (if a = NaN \<or> b = NaN then NaN
      else if is_inf a \<and> is_inf b then (if sign_bit a = sign_bit b then a else NaN)
      else if is_inf a then a
      else if is_inf b then b
      else round_double (a = MinusZero \<and> b = MinusZero) (val a + val b))"

definition fsub :: "double \<Rightarrow> double \<Rightarrow> double" where
  "fsub a b = fadd a (fneg b)"

definition fmul :: "double \<Rightarrow> double \<Rightarrow> double" where
  "fmul a b =
     (if a = NaN \<or> b = NaN then NaN
      else if (is_inf a \<and> is_zero b) \<or> (is_zero a \<and> is_inf b) then NaN
      else if is_inf a \<or> is_inf b then Infinity (sign_bit a \<noteq> sign_bit b)
      else round_double (sign_bit a \<noteq> sign_bit b) (val a * val b))"

definition fdiv :: "double \<Rightarrow> double \<Rightarrow> double" where
  "fdiv a b =
     (if a = NaN \<or> b = NaN then NaN
      else if (is_inf a \<and> is_inf b) \<or> (is_zero a \<and> is_zero b) then NaN
      else if is_inf a \<or> is_zero b then Infinity (sign_bit a \<noteq> sign_bit b)
      else if is_inf b then signed_zero (sign_bit a \<noteq> sign_bit b)
      else round_double (sign_bit a \<noteq> sign_bit b) (val a / val b))"

fun ffloor :: "double \<Rightarrow> double" where
  "ffloor (Finite r) = Finite (of_int \<lfloor>r\<rfloor>)"
| "ffloor f = f"

fun fceil :: "double \<Rightarrow> double" where
  "fceil (Finite r) = (if - 1 < r \<and> r < 0 then MinusZero else Finite (of_int \<lceil>r\<rceil>))"
| "fceil f = f"

fun fabs :: "double \<Rightarrow> double" where
  "fabs (Finite r) = Finite \<bar>r\<bar>"
| "fabs MinusZero = Finite 0"
| "fabs (Infinity s) = Infinity False"
| "fabs NaN = NaN"

definition round_to_zero :: "rat \<Rightarrow> int" where
  "round_to_zero q = (if 0 \<le> q then \<lfloor>q\<rfloor> else \<lceil>q\<rceil>)"

definition fmod :: "double \<Rightarrow> double \<Rightarrow> double" where
  "fmod x y =
     (if x = NaN \<or> y = NaN \<or> is_inf x \<or> is_zero y then NaN
      else if is_inf y \<or> is_zero x then x
      else
        (let r = val x - val y * of_int (round_to_zero (val x / val y))
         in if r = 0 then signed_zero (sign_bit x) else Finite r))"

fun fless :: "double \<Rightarrow> double \<Rightarrow> bool" where
  "fless NaN b = False"
| "fless a NaN = False"
| "fless (Infinity s) (Infinity t) = (s \<and> \<not> t)"
| "fless (Infinity s) b = s"
| "fless a (Infinity t) = (\<not> t)"
| "fless a b = (val a < val b)"

fun feq :: "double \<Rightarrow> double \<Rightarrow> bool" where
  "feq NaN b = False"
| "feq a NaN = False"
| "feq (Infinity s) (Infinity t) = (s = t)"
| "feq (Infinity s) b = False"
| "feq a (Infinity t) = False"
| "feq a b = (val a = val b)"

text \<open>
  Python's \<open>//\<close> and \<open>%\<close> on two floats of which the second is not zero, as
  CPython computes them: the remainder of \<open>fmod\<close>, which has the sign of the dividend,
  moved by the divisor if the signs differ; the quotient from a subtraction and a
  division that both round, one less if the remainder was moved, then snapped to the
  nearest integral value.
\<close>

definition float_divmod :: "double \<Rightarrow> double \<Rightarrow> double \<times> double" where
  "float_divmod vx wx =
     (let mod0 = fmod vx wx;
          div0 = fdiv (fsub vx mod0) wx;
          moved = (\<not> is_zero mod0 \<and> fless wx (Finite 0) \<noteq> fless mod0 (Finite 0));
          mod1 = (if is_zero mod0 then signed_zero (sign_bit wx)
                  else if moved then fadd mod0 wx else mod0);
          div1 = (if moved then fsub div0 (Finite 1) else div0);
          floordiv =
            (if is_zero div1 then signed_zero (sign_bit (fdiv vx wx))
             else
               (let fl = ffloor div1
                in if fless (Finite (1 / 2)) (fsub div1 fl) then fadd fl (Finite 1) else fl))
      in (floordiv, mod1))"

text \<open>
  What \<open>_eval\<close> returns: a Python float, a bool from a condition, an int, which
  Python's arithmetic gives on bools, a complex number, which Python 3's \<open>**\<close> gives
  for a negative base and a fractional exponent, or a scalar of numpy: a \<open>float64\<close>
  from one of its functions or a \<open>bool_\<close> from a comparison with one.
\<close>

datatype "value" = F double | I int | B bool | Z double double | N double | NB bool

fun is_int :: "value \<Rightarrow> bool" where
  "is_int (I i) = True"
| "is_int (B b) = True"
| "is_int v = False"

fun int_of :: "value \<Rightarrow> int" where
  "int_of (I i) = i"
| "int_of (B b) = (if b then 1 else 0)"
| "int_of v = 0"

fun is_numpy :: "value \<Rightarrow> bool" where
  "is_numpy (N f) = True"
| "is_numpy (NB b) = True"
| "is_numpy v = False"

fun is_complex :: "value \<Rightarrow> bool" where
  "is_complex (Z re im) = True"
| "is_complex v = False"

text \<open>The truth value of \<open>v\<close> in \<open>if v\<close>, \<open>not v\<close>, \<open>v and w\<close>: a NaN is true.\<close>

fun truthy :: "value \<Rightarrow> bool" where
  "truthy (F f) = (\<not> is_zero f)"
| "truthy (I i) = (i \<noteq> 0)"
| "truthy (B b) = b"
| "truthy (Z re im) = (\<not> (is_zero re \<and> is_zero im))"
| "truthy (N f) = (\<not> is_zero f)"
| "truthy (NB b) = b"

text \<open>The truth value of \<open>v == 0\<close>.\<close>

fun equals_zero :: "value \<Rightarrow> bool" where
  "equals_zero (F f) = is_zero f"
| "equals_zero (I i) = (i = 0)"
| "equals_zero (B b) = (\<not> b)"
| "equals_zero (Z re im) = (is_zero re \<and> is_zero im)"
| "equals_zero (N f) = is_zero f"
| "equals_zero (NB b) = (\<not> b)"

text \<open>
  What the evaluator takes from outside: Python's \<open>**\<close>, numpy's functions
  (\<open>numpy.sqrt\<close>, \<open>numpy.sin\<close>, ..., one for each function class that calls one), the
  division of two numpy scalars, what an operator gives when an operand is a numpy
  scalar, \<open>-v\<close> for a numpy scalar \<open>v\<close>, what \<open>+\<close>, \<open>-\<close>, \<open>*\<close>, \<open>/\<close>,
  \<open>==\<close> and \<open>!=\<close> give when an operand is complex and none is a numpy scalar,
  \<open>str\<close> of a value and of an exception, and the order in which Python iterates over a
  set of expressions.
\<close>

record runtime =
  power :: "value \<Rightarrow> value \<Rightarrow> error + value"
  numpy :: "func_kind \<Rightarrow> value \<Rightarrow> error + value"
  numpy_divide :: "value \<Rightarrow> value \<Rightarrow> error + value"
  numpy_infix :: "infix_kind \<Rightarrow> value \<Rightarrow> value \<Rightarrow> error + value"
  numpy_negative :: "value \<Rightarrow> error + value"
  complex_infix :: "infix_kind \<Rightarrow> value \<Rightarrow> value \<Rightarrow> error + value"
  str_value :: "value \<Rightarrow> string"
  str_error :: "error \<Rightarrow> string"
  iter_set :: "expr list \<Rightarrow> expr list"

text \<open>
  An int or a bool as a double, for an operator whose other operand is a float:
  rounded, and \<open>OverflowError\<close> if it is too large.
\<close>

definition int_to_double :: "int \<Rightarrow> error + double" where
  "int_to_double i =
     (case round_double False (of_int i) of
        Infinity s \<Rightarrow> Inl OverflowError
      | f \<Rightarrow> Inr f)"

fun to_double :: "value \<Rightarrow> error + double" where
  "to_double (F f) = Inr f"
| "to_double v = int_to_double (int_of v)"

text \<open>
  A float, int or bool for a comparison: Python compares a float with an int by their
  exact values.
\<close>

fun exact :: "value \<Rightarrow> double" where
  "exact (F f) = f"
| "exact v = Finite (of_int (int_of v))"

text \<open>
  A binary operator of Python on two values. numpy computes the result if an operand
  is one of its scalars. Otherwise, if an operand is complex, \<open>//\<close>, \<open>%\<close>, \<open><\<close>,
  \<open>>\<close>, \<open><=\<close> and \<open>>=\<close> raise \<open>TypeError\<close>.
\<close>

definition dispatch ::
  "runtime \<Rightarrow> infix_kind \<Rightarrow> (value \<Rightarrow> value \<Rightarrow> error + value) \<Rightarrow> value \<Rightarrow> value \<Rightarrow> error + value" where
  "dispatch rt k python a b =
     (if is_numpy a \<or> is_numpy b then numpy_infix rt k a b
      else if is_complex a \<or> is_complex b
      then (if k \<in> set [Quotient, Remainder, More, Less, MoreEqual, LessEqual]
            then Inl TypeError
            else complex_infix rt k a b)
      else python a b)"

text \<open>
  On floats, ints and bools: the operation of ints if both operands are an int or a
  bool, and that of doubles otherwise.
\<close>

definition python_arith ::
  "(int \<Rightarrow> int \<Rightarrow> error + value) \<Rightarrow> (double \<Rightarrow> double \<Rightarrow> error + value) \<Rightarrow> value \<Rightarrow> value \<Rightarrow> error + value" where
  "python_arith on_int on_double a b =
     (if is_int a \<and> is_int b then on_int (int_of a) (int_of b)
      else
        (case to_double a of
           Inl err \<Rightarrow> Inl err
         | Inr x \<Rightarrow> (case to_double b of Inl err \<Rightarrow> Inl err | Inr y \<Rightarrow> on_double x y)))"

definition py_add :: "runtime \<Rightarrow> value \<Rightarrow> value \<Rightarrow> error + value" where
  "py_add rt = dispatch rt Plus' (python_arith (\<lambda>i j. Inr (I (i + j))) (\<lambda>x y. Inr (F (fadd x y))))"

definition py_sub :: "runtime \<Rightarrow> value \<Rightarrow> value \<Rightarrow> error + value" where
  "py_sub rt = dispatch rt Minus (python_arith (\<lambda>i j. Inr (I (i - j))) (\<lambda>x y. Inr (F (fsub x y))))"

definition py_mul :: "runtime \<Rightarrow> value \<Rightarrow> value \<Rightarrow> error + value" where
  "py_mul rt = dispatch rt Multiply (python_arith (\<lambda>i j. Inr (I (i * j))) (\<lambda>x y. Inr (F (fmul x y))))"

text \<open>
  \<open>a / b\<close> under \<open>from __future__ import division\<close>: a float, for two ints the
  quotient rounded once, \<open>OverflowError\<close> if it is too large.
\<close>

definition int_truediv :: "int \<Rightarrow> int \<Rightarrow> error + value" where
  "int_truediv i j =
     (if j = 0 then Inl ZeroDivisionError
      else
        (case round_double ((i < 0) \<noteq> (j < 0)) (of_int i / of_int j) of
           Infinity s \<Rightarrow> Inl OverflowError
         | f \<Rightarrow> Inr (F f)))"

definition py_truediv :: "runtime \<Rightarrow> value \<Rightarrow> value \<Rightarrow> error + value" where
  "py_truediv rt =
     dispatch rt Divide
       (python_arith int_truediv
          (\<lambda>x y. if is_zero y then Inl ZeroDivisionError else Inr (F (fdiv x y))))"

text \<open>
  \<open>a // b\<close> and \<open>a % b\<close>: on ints the quotient rounded towards minus infinity and
  what is left, on floats what \<open>float_divmod\<close> gives; \<open>ZeroDivisionError\<close> for a
  zero divisor.
\<close>

definition py_floordiv :: "runtime \<Rightarrow> value \<Rightarrow> value \<Rightarrow> error + value" where
  "py_floordiv rt =
     dispatch rt Quotient
       (python_arith
          (\<lambda>i j. if j = 0 then Inl ZeroDivisionError else Inr (I (i div j)))
          (\<lambda>x y. if is_zero y then Inl ZeroDivisionError else Inr (F (fst (float_divmod x y)))))"

definition py_mod :: "runtime \<Rightarrow> value \<Rightarrow> value \<Rightarrow> error + value" where
  "py_mod rt =
     dispatch rt Remainder
       (python_arith
          (\<lambda>i j. if j = 0 then Inl ZeroDivisionError else Inr (I (i mod j)))
          (\<lambda>x y. if is_zero y then Inl ZeroDivisionError else Inr (F (snd (float_divmod x y)))))"

text \<open>The comparisons: a Python bool; every comparison with a NaN but \<open>!=\<close> is false.\<close>

fun compare :: "infix_kind \<Rightarrow> double \<Rightarrow> double \<Rightarrow> bool" where
  "compare Equal x y = feq x y"
| "compare NotEqual x y = (\<not> feq x y)"
| "compare More x y = fless y x"
| "compare Less x y = fless x y"
| "compare MoreEqual x y = (fless y x \<or> feq x y)"
| "compare LessEqual x y = (fless x y \<or> feq x y)"
| "compare k x y = False"

definition py_compare :: "runtime \<Rightarrow> infix_kind \<Rightarrow> value \<Rightarrow> value \<Rightarrow> error + value" where
  "py_compare rt k = dispatch rt k (\<lambda>a b. Inr (B (compare k (exact a) (exact b))))"

text \<open>\<open>-a\<close>.\<close>

fun py_neg :: "runtime \<Rightarrow> value \<Rightarrow> error + value" where
  "py_neg rt (F f) = Inr (F (fneg f))"
| "py_neg rt (I i) = Inr (I (- i))"
| "py_neg rt (B b) = Inr (I (if b then - 1 else 0))"
| "py_neg rt (Z re im) = Inr (Z (fneg re) (fneg im))"
| "py_neg rt v = numpy_negative rt v"

text \<open>
  What the module asks of the variables of the model. The class \<open>Variable\<close> is not part
  of \<open>_expressions.py\<close>. \<open>rhs\<close> is \<open>None\<close> for a variable without a defining
  expression. The left-hand side of a variable that is not a state is its name, so the
  test \<open>self._value.lhs() == self\<close> of \<open>Name.rhs()\<close> holds for it.
\<close>

record variables =
  is_state :: "nat \<Rightarrow> bool"
  state_value :: "nat \<Rightarrow> rat"
  rhs :: "nat \<Rightarrow> expr option"
  is_bound :: "nat \<Rightarrow> bool"
  is_constant :: "nat \<Rightarrow> bool"

record env =
  texts :: fmt
  naming :: names
  vars :: variables
  run :: runtime

subsection \<open>Evaluation\<close>

text \<open>
  \<open>rhs()\<close> of \<open>Name\<close>, \<open>Derivative\<close>, \<open>PartialDerivative\<close> and \<open>InitialValue\<close>.
  A string has no method \<open>is_state\<close> or \<open>rhs\<close>: \<open>AttributeError\<close>. The last two
  classes return \<open>None\<close>. On any other class the method raises
  \<open>NotImplementedError\<close> (\<open>LhsExpression.rhs\<close>) or does not exist.
\<close>

fun rhs_of :: "variables \<Rightarrow> expr \<Rightarrow> error + expr option" where
  "rhs_of vs (Name (Var v)) =
     (if is_state vs v then Inr (Some (Number (state_value vs v) None)) else Inr (rhs vs v))"
| "rhs_of vs (Name (Str s)) = Inl AttributeError"
| "rhs_of vs (Derivative (Name (Var v))) = Inr (rhs vs v)"
| "rhs_of vs (Derivative a) = Inl AttributeError"
| "rhs_of vs (PartialDerivative a b) = Inr None"
| "rhs_of vs (InitialValue a) = Inr None"
| "rhs_of vs e = Inl AttributeError"

text \<open>
  \<open>except (ArithmeticError, ValueError) as e: raise EvalError(self, subst, e)\<close>: an
  arithmetic error raised in the \<open>try\<close> block of \<open>self\<close> becomes an \<open>EvalError\<close>;
  every other exception, an \<open>EvalError\<close> from an operand among them, passes.
\<close>

fun is_arithmetic :: "error \<Rightarrow> bool" where
  "is_arithmetic ZeroDivisionError = True"
| "is_arithmetic OverflowError = True"
| "is_arithmetic ValueError = True"
| "is_arithmetic err = False"

definition catching :: "expr \<Rightarrow> error + value \<Rightarrow> error + value" where
  "catching self r =
     (case r of
        Inl err \<Rightarrow> (if is_arithmetic err then Inl (EvalError self err) else Inl err)
      | Inr v \<Rightarrow> Inr v)"

text \<open>Two operands evaluated in turn, then combined.\<close>

definition both :: "error + value \<Rightarrow> error + value \<Rightarrow> (value \<Rightarrow> value \<Rightarrow> error + value) \<Rightarrow> error + value" where
  "both ra rb g =
     (case ra of
        Inl err \<Rightarrow> Inl err
      | Inr a \<Rightarrow> (case rb of Inl err \<Rightarrow> Inl err | Inr b \<Rightarrow> g a b))"

text \<open>
  The body of \<open>_eval\<close> of an infix class, given what \<open>_eval\<close> of the operands gives.
  \<open>Divide._eval\<close> evaluates its second operand first and raises
  \<open>ZeroDivisionError\<close> if it is zero, before it evaluates the first. \<open>and\<close> and \<open>or\<close>
  evaluate their second operand only if the first does not decide.
\<close>

fun infix_eval :: "runtime \<Rightarrow> infix_kind \<Rightarrow> error + value \<Rightarrow> error + value \<Rightarrow> error + value" where
  "infix_eval rt Plus' ra rb = both ra rb (py_add rt)"
| "infix_eval rt Minus ra rb = both ra rb (py_sub rt)"
| "infix_eval rt Multiply ra rb = both ra rb (py_mul rt)"
| "infix_eval rt Divide ra rb =
     (case rb of
        Inl err \<Rightarrow> Inl err
      | Inr b \<Rightarrow>
          (if equals_zero b then Inl ZeroDivisionError
           else (case ra of Inl err \<Rightarrow> Inl err | Inr a \<Rightarrow> py_truediv rt a b)))"
| "infix_eval rt Quotient ra rb = both ra rb (py_floordiv rt)"
| "infix_eval rt Remainder ra rb = both ra rb (py_mod rt)"
| "infix_eval rt Power' ra rb = both ra rb (power rt)"
| "infix_eval rt And' ra rb =
     (case ra of Inl err \<Rightarrow> Inl err | Inr a \<Rightarrow> (if truthy a then rb else Inr a))"
| "infix_eval rt Or' ra rb =
     (case ra of Inl err \<Rightarrow> Inl err | Inr a \<Rightarrow> (if truthy a then Inr a else rb))"
| "infix_eval rt k ra rb = both ra rb (py_compare rt k)"

text \<open>
  \<open>Piecewise._eval\<close>, on what \<open>_eval\<close> of the operands gives: the value after the
  first condition that holds, or the last operand.
\<close>

fun piecewise_eval :: "(error + value) list \<Rightarrow> error + value" where
  "piecewise_eval (rc # rv # rd # rest) =
     (case rc of
        Inl err \<Rightarrow> Inl err
      | Inr c \<Rightarrow> (if truthy c then rv else piecewise_eval (rd # rest)))"
| "piecewise_eval [rd] = rd"
| "piecewise_eval rs = Inl IndexError"

text \<open>
  The body of \<open>_eval\<close> of a function class. The functions are numpy's;
  \<open>numpy.floor\<close>, \<open>numpy.ceil\<close> and \<open>numpy.abs\<close> of a Python float are the
  \<open>float64\<close> that C's \<open>floor\<close>, \<open>ceil\<close> and \<open>fabs\<close> give. \<open>If\<close> evaluates
  the branch that its condition selects. An object with no operand, or an \<open>If\<close> without three, is not
  one that a constructor returns.
\<close>

fun function_eval :: "runtime \<Rightarrow> func_kind \<Rightarrow> (error + value) list \<Rightarrow> error + value" where
  "function_eval rt If' rs =
     (case rs of
        [ri, rt', re] \<Rightarrow>
          (case ri of Inl err \<Rightarrow> Inl err | Inr c \<Rightarrow> (if truthy c then rt' else re))
      | _ \<Rightarrow> Inl TypeError)"
| "function_eval rt Piecewise rs = piecewise_eval rs"
| "function_eval rt Log rs =
     (case rs of
        [] \<Rightarrow> Inl IndexError
      | [r] \<Rightarrow> (case r of Inl err \<Rightarrow> Inl err | Inr a \<Rightarrow> numpy rt Log a)
      | r1 # r2 # _ \<Rightarrow>
          (case r1 of
             Inl err \<Rightarrow> Inl err
           | Inr a \<Rightarrow>
               (case numpy rt Log a of
                  Inl err \<Rightarrow> Inl err
                | Inr la \<Rightarrow>
                    (case r2 of
                       Inl err \<Rightarrow> Inl err
                     | Inr b \<Rightarrow>
                         (case numpy rt Log b of
                            Inl err \<Rightarrow> Inl err
                          | Inr lb \<Rightarrow> numpy_divide rt la lb)))))"
| "function_eval rt Floor rs =
     (case rs of [] \<Rightarrow> Inl IndexError
      | r # _ \<Rightarrow>
          (case r of
             Inl err \<Rightarrow> Inl err
           | Inr a \<Rightarrow> (case a of F f \<Rightarrow> Inr (N (ffloor f)) | _ \<Rightarrow> numpy rt Floor a)))"
| "function_eval rt Ceil rs =
     (case rs of [] \<Rightarrow> Inl IndexError
      | r # _ \<Rightarrow>
          (case r of
             Inl err \<Rightarrow> Inl err
           | Inr a \<Rightarrow> (case a of F f \<Rightarrow> Inr (N (fceil f)) | _ \<Rightarrow> numpy rt Ceil a)))"
| "function_eval rt Abs rs =
     (case rs of [] \<Rightarrow> Inl IndexError
      | r # _ \<Rightarrow>
          (case r of
             Inl err \<Rightarrow> Inl err
           | Inr a \<Rightarrow> (case a of F f \<Rightarrow> Inr (N (fabs f)) | _ \<Rightarrow> numpy rt Abs a)))"
| "function_eval rt k rs =
     (case rs of [] \<Rightarrow> Inl IndexError
      | r # _ \<Rightarrow> (case r of Inl err \<Rightarrow> Inl err | Inr a \<Rightarrow> numpy rt k a))"

text \<open>
  The methods \<open>_eval(subst, precision)\<close> for \<open>subst=None\<close> and double precision.
  A \<open>Number\<close> holds a finite double, given by its value.
  The first argument after the environment is the number of calls that Python's stack
  still takes: a variable's defining expression may refer to the variable, and then
  Python stops with \<open>RecursionError\<close>. \<open>If._eval\<close> and \<open>Piecewise._eval\<close> have no
  \<open>try\<close> block.
\<close>

fun eval' :: "env \<Rightarrow> nat \<Rightarrow> expr \<Rightarrow> error + value" where
  "eval' env 0 e = Inl RecursionError"
| "eval' env (Suc n) (Number v u) = Inr (F (Finite v))"
| "eval' env (Suc n) (Prefix PrefixPlus a) = catching (Prefix PrefixPlus a) (eval' env n a)"
| "eval' env (Suc n) (Prefix PrefixMinus a) =
     catching (Prefix PrefixMinus a)
       (case eval' env n a of Inl err \<Rightarrow> Inl err | Inr x \<Rightarrow> py_neg (run env) x)"
| "eval' env (Suc n) (Prefix Not' a) =
     catching (Prefix Not' a)
       (case eval' env n a of Inl err \<Rightarrow> Inl err | Inr x \<Rightarrow> Inr (B (\<not> truthy x)))"
| "eval' env (Suc n) (Infix k a b) =
     catching (Infix k a b) (infix_eval (run env) k (eval' env n a) (eval' env n b))"
| "eval' env (Suc n) (Function k ops) =
     (if k = If' \<or> k = Piecewise then function_eval (run env) k (map (eval' env n) ops)
      else catching (Function k ops) (function_eval (run env) k (map (eval' env n) ops)))"
| "eval' env (Suc n) lhs =
     catching lhs
       (case rhs_of (vars env) lhs of
          Inl err \<Rightarrow> Inl err
        | Inr None \<Rightarrow> Inl AttributeError
        | Inr (Some r) \<Rightarrow> eval' env n r)"

text \<open>
  A result that is a value stays that value when the stack takes more calls: \<open>r'\<close>
  is at least \<open>r\<close> when it is the value that \<open>r\<close> is, if \<open>r\<close> is one.
\<close>

definition at_least :: "error + value \<Rightarrow> error + value \<Rightarrow> bool" where
  "at_least r r' \<longleftrightarrow> (\<forall>v. r = Inr v \<longrightarrow> r' = Inr v)"

subsection \<open>The message of a failed evaluation\<close>

text \<open>\<open>'\n'.join(out)\<close>.\<close>

fun join_lines :: "string list \<Rightarrow> string" where
  "join_lines [] = []"
| "join_lines [s] = s"
| "join_lines (s # t # ss) = s @ [CHR 0x0A] @ join_lines (t # ss)"

text \<open>\<open>s.find(sub)\<close>: the lowest index at which \<open>sub\<close> starts in \<open>s\<close>, if any.\<close>

fun find_sub :: "string \<Rightarrow> string \<Rightarrow> nat option" where
  "find_sub [] sub = (if sub = [] then Some 0 else None)"
| "find_sub (c # cs) sub =
     (if take (length sub) (c # cs) = sub then Some 0
      else map_option Suc (find_sub cs sub))"

text \<open>
  The attribute \<open>_references\<close>: for a name, a derivative, a partial derivative or an
  initial value the set that holds the expression itself, for any other expression the
  union of the sets of its operands. A set holds one of several equal expressions.
\<close>

definition add_to_set :: "fmt \<Rightarrow> expr \<Rightarrow> expr list \<Rightarrow> expr list" where
  "add_to_set f x s = (if list_ex (\<lambda>y. eq f y x) s then s else s @ [x])"

function references' :: "fmt \<Rightarrow> expr \<Rightarrow> expr list" where
  "references' f e =
     (if isinstance e LhsExpression then [e]
      else fold (add_to_set f) (concat (map (references' f) (operands e))) [])"
  by pat_completeness auto
termination
  by (relation "measure (\<lambda>(f, e). size e)") (auto simp: size_operands)

declare references'.simps [simp del]

text \<open>\<open>references()\<close>: a copy of the set \<open>_references\<close>.\<close>

definition references :: "fmt \<Rightarrow> expr \<Rightarrow> expr list" where
  "references f e = references' f e"

text \<open>The first result of a loop that returns at the first result that is not \<open>None\<close>.\<close>

fun first_found :: "(error + 'a option) list \<Rightarrow> error + 'a option" where
  "first_found [] = Inr None"
| "first_found (Inl err # rs) = Inl err"
| "first_found (Inr (Some x) # rs) = Inr (Some x)"
| "first_found (Inr None # rs) = first_found rs"

text \<open>
  The local function \<open>path(root, target, trail)\<close> of \<open>_expr_error_message\<close>: the
  names through whose defining expressions \<open>target\<close> is reached from \<open>root\<close>
  (\<open>start\<close> here). When the name \<open>root\<close> has no defining expression, the next call has
  \<open>None\<close> for \<open>root\<close> and fails in \<open>for child in root\<close>. The second argument counts the calls
  that the stack still takes.
\<close>

fun path :: "env \<Rightarrow> nat \<Rightarrow> expr \<Rightarrow> expr \<Rightarrow> expr list \<Rightarrow> error + expr list option" where
  "path env 0 start target trail = Inl RecursionError"
| "path env (Suc n) start target trail =
     (if eq (texts env) start target then Inr (Some trail)
      else if isinstance start (Class KName) then
        (case rhs_of (vars env) start of
           Inl err \<Rightarrow> Inl err
         | Inr None \<Rightarrow> Inl TypeError
         | Inr (Some r) \<Rightarrow> path env n r target (trail @ [start]))
      else first_found (map (\<lambda>child. path env n child target trail) (operands start)))"

text \<open>\<open>str(e)\<close> of an expression is \<open>e.code()\<close>.\<close>

definition str_expr :: "env \<Rightarrow> expr \<Rightarrow> string" where
  "str_expr env e = code (texts env) (naming env) None e"

text \<open>The lines \<open>'  ' * (1 + i) + str(var)\<close> for the names of the trail.\<close>

fun trail_lines :: "env \<Rightarrow> nat \<Rightarrow> expr list \<Rightarrow> string list" where
  "trail_lines env i [] = []"
| "trail_lines env i (var # rest) =
     (concat (replicate (1 + i) ''  '') @ str_expr env var) # trail_lines env (Suc i) rest"

text \<open>
  \<open>_expr_error_message(owner, e)\<close> for an \<open>EvalError\<close> or \<open>EvalUnitError\<close> \<open>e\<close>
  with the attributes \<open>expr\<close> and \<open>err\<close>. The expressions of the model have no
  token (the parser sets it), so no line number is written. \<open>first\<close> is the first
  line: \<open>str(e.err)\<close>, after \<open>Incompatible units: \<close> for an \<open>EvalUnitError\<close>.
\<close>

definition error_message_lines :: "env \<Rightarrow> nat \<Rightarrow> expr \<Rightarrow> string \<Rightarrow> expr \<Rightarrow> error + string list" where
  "error_message_lines env n owner first expr =
     (let par_str = ''  '' @ str_expr env owner;
          err_str = str_expr env expr
      in case path env n owner expr [] of
           Inl err \<Rightarrow> Inl err
         | Inr found \<Rightarrow>
             (case (case found of
                      None \<Rightarrow> Inr ([], par_str)
                    | Some [] \<Rightarrow> Inr ([], par_str)
                    | Some (v # vs) \<Rightarrow>
                        (case rhs_of (vars env) (last (v # vs)) of
                           Inl err \<Rightarrow> Inl err
                         | Inr None \<Rightarrow> Inl AttributeError
                         | Inr (Some r) \<Rightarrow>
                             (let par_str' = str_expr env (last (v # vs)) @ '' = '' @ str_expr env r
                              in Inr (''Error located at:'' # trail_lines env 0 (v # vs) @ [par_str'],
                                      par_str')))) of
                Inl err \<Rightarrow> Inl err
              | Inr (located, par_str'') \<Rightarrow>
                  Inr ([first, ''Encountered when evaluating'', par_str] @ located @
                       (case find_sub par_str'' err_str of
                          None \<Rightarrow> []
                        | Some start \<Rightarrow>
                            [replicate start CHR '' '' @ replicate (length err_str) CHR ''~'']))))"

fun expr_error_message :: "env \<Rightarrow> nat \<Rightarrow> expr \<Rightarrow> error \<Rightarrow> error + string" where
  "expr_error_message env n owner (EvalUnitError expr err) =
     (case error_message_lines env n owner (''Incompatible units'' @ '': '' @ err) expr of
        Inl err' \<Rightarrow> Inl err'
      | Inr out \<Rightarrow> Inr (join_lines out))"
| "expr_error_message env n owner (EvalError expr err) =
     (case error_message_lines env n owner (str_error (run env) err) expr of
        Inl err' \<Rightarrow> Inl err'
      | Inr out \<Rightarrow> Inr (join_lines out))"
| "expr_error_message env n owner e = Inl AttributeError"

text \<open>
  \<open>str(op._eval(subst, precision))\<close> in \<open>try ... except EvalError\<close>: the text of
  the value, or \<open>another error\<close> in place of an \<open>EvalError\<close>; any other exception
  passes.
\<close>

fun shown :: "runtime \<Rightarrow> error + value \<Rightarrow> error + string" where
  "shown rt (Inr v) = Inr (str_value rt v)"
| "shown rt (Inl (EvalError expr err)) = Inr ''another error''"
| "shown rt (Inl err) = Inl err"

text \<open>The lines for the operands of the expression that failed, numbered from 1.\<close>

fun operand_lines :: "env \<Rightarrow> nat \<Rightarrow> nat \<Rightarrow> expr list \<Rightarrow> error + string list" where
  "operand_lines env n i [] = Inr []"
| "operand_lines env n i (op # rest) =
     (case shown (run env) (eval' env n op) of
        Inl err \<Rightarrow> Inl err
      | Inr s \<Rightarrow>
          (case operand_lines env n (Suc i) rest of
             Inl err \<Rightarrow> Inl err
           | Inr ls \<Rightarrow> Inr ((''  ('' @ str_nat (1 + i) @ '') '' @ s) # ls)))"

text \<open>
  The lines for the variables that the failed expression refers to: a number on the
  line of the name, any other defining expression on that line and its value on the
  next.
\<close>

fun variable_lines :: "env \<Rightarrow> nat \<Rightarrow> expr list \<Rightarrow> error + string list" where
  "variable_lines env n [] = Inr []"
| "variable_lines env n (ref # rest) =
     (case rhs_of (vars env) ref of
        Inl err \<Rightarrow> Inl err
      | Inr None \<Rightarrow> Inl AttributeError
      | Inr (Some r) \<Rightarrow>
          (case shown (run env) (eval' env n r) of
             Inl err \<Rightarrow> Inl err
           | Inr s \<Rightarrow>
               (case variable_lines env n rest of
                  Inl err \<Rightarrow> Inl err
                | Inr ls \<Rightarrow>
                    (if type_of r = KNumber
                     then Inr ((''  '' @ str_expr env ref @ '' = '' @ s) # ls)
                     else Inr ((''  '' @ str_expr env ref @ '' = '' @ str_expr env r)
                               # (''  '' @ replicate (length (str_expr env ref)) CHR '' '' @ '' = '' @ s)
                               # ls)))))"

text \<open>
  The handler of \<open>eval\<close>: the message of \<open>_expr_error_message\<close>, the operands of the
  failed expression \<open>expr\<close> and the variables it refers to, joined into the message
  of a \<open>NumericalError\<close>.
\<close>

definition numerical_error :: "env \<Rightarrow> nat \<Rightarrow> expr \<Rightarrow> expr \<Rightarrow> error \<Rightarrow> error" where
  "numerical_error env n self expr err =
     (case expr_error_message env n self (EvalError expr err) of
        Inl err' \<Rightarrow> err'
      | Inr message \<Rightarrow>
          (case operand_lines env n 0 (operands expr) of
             Inl err' \<Rightarrow> err'
           | Inr ols \<Rightarrow>
               (case variable_lines env n (iter_set (run env) (references (texts env) expr)) of
                  Inl err' \<Rightarrow> err'
                | Inr vls \<Rightarrow>
                    NumericalError
                      (join_lines
                         ([message]
                          @ (if operands expr = [] then []
                             else ''With the following operands:'' # ols)
                          @ (if references (texts env) expr = [] then []
                             else ''And the following variables:'' # vls))))))"

text \<open>
  \<open>eval(subst=None, precision=DOUBLE_PRECISION)\<close>: the value, or for an
  \<open>EvalError\<close> what the handler raises; any other exception passes.
\<close>

fun eval_outcome :: "env \<Rightarrow> nat \<Rightarrow> expr \<Rightarrow> error + value \<Rightarrow> error + value" where
  "eval_outcome env n self (Inr v) = Inr v"
| "eval_outcome env n self (Inl (EvalError expr err)) = Inl (numerical_error env n self expr err)"
| "eval_outcome env n self (Inl err) = Inl err"

definition eval :: "env \<Rightarrow> nat \<Rightarrow> expr \<Rightarrow> error + value" where
  "eval env n self = eval_outcome env n self (eval' env n self)"

text \<open>
  An environment for the examples: two states, nothing else defined. Of the powers it
  has the one that the examples take, \<open>(-8.0) ** 0.5\<close>, with the complex number that
  Python 3 gives for it, \<open>(1.7319121124709868e-16+2.8284271247461903j)\<close>. What numpy
  and the complex numbers compute is not used: they return their first argument.
\<close>

definition example_power :: "value \<Rightarrow> value \<Rightarrow> error + value" where
  "example_power a b =
     (if a = F (Finite (- 8)) \<and> b = F (Finite (1 / 2))
      then Inr (Z (Finite (7025470172532439 / 40564819207303340847894502572032)) (Finite (6369051672525773 / 2251799813685248)))
      else Inl OverflowError)"

fun example_str :: "value \<Rightarrow> string" where
  "example_str (F f) = integral_strfloat (val f)"
| "example_str (N f) = integral_strfloat (val f)"
| "example_str (I i) = (if i < 0 then ''-'' else []) @ str_nat (nat \<bar>i\<bar>)"
| "example_str (B b) = (if b then ''True'' else ''False'')"
| "example_str (NB b) = (if b then ''True'' else ''False'')"
| "example_str (Z re im) = ''(complex)''"

definition example_runtime :: runtime where
  "example_runtime =
     \<lparr> power = example_power, numpy = (\<lambda>k a. Inr a),
       numpy_divide = (\<lambda>a b. Inr a), numpy_infix = (\<lambda>k a b. Inr a),
       numpy_negative = (\<lambda>a. Inr a), complex_infix = (\<lambda>k a b. Inr a),
       str_value = example_str, str_error = (\<lambda>e. []), iter_set = (\<lambda>s. s) \<rparr>"

definition example_variables :: variables where
  "example_variables =
     \<lparr> is_state = (\<lambda>v. v < 2), state_value = (\<lambda>v. 0), rhs = (\<lambda>v. None),
       is_bound = (\<lambda>v. False), is_constant = (\<lambda>v. False) \<rparr>"

definition example_env :: env where
  "example_env =
     \<lparr> texts = example_fmt, naming = example_names, vars = example_variables,
       run = example_runtime \<rparr>"

subsection \<open>Units\<close>

text \<open>The two modes, \<open>myokit.UNIT_TOLERANT\<close> and \<open>myokit.UNIT_STRICT\<close>.\<close>

datatype mode = UNIT_TOLERANT | UNIT_STRICT

text \<open>
  What the unit rules take from outside: the arithmetic of \<open>myokit.Unit\<close>
  (\<open>u * v\<close>, \<open>u / v\<close>, \<open>1 / u\<close>, \<open>u ** x\<close>), \<open>u.clarify()\<close>, the unit of a
  variable in a mode, and the time unit of the model of a variable (\<open>None\<close> for a
  variable without a model).
\<close>

record units =
  unit_mul :: "unit \<Rightarrow> unit \<Rightarrow> unit"
  unit_div :: "unit \<Rightarrow> unit \<Rightarrow> unit"
  unit_inverse :: "unit \<Rightarrow> unit"
  unit_pow :: "unit \<Rightarrow> value \<Rightarrow> unit"
  clarify :: "unit \<Rightarrow> string"
  var_unit :: "nat \<Rightarrow> mode \<Rightarrow> unit option"
  time_unit :: "nat \<Rightarrow> mode \<Rightarrow> unit option option"

text \<open>
  The rule shared by \<open>Divide\<close>, \<open>Quotient\<close>, \<open>Derivative\<close> and
  \<open>PartialDerivative\<close>: an unknown divisor leaves the dividend's unit, an unknown
  dividend gives \<open>1 / unit2\<close>.
\<close>

definition divide_units :: "units \<Rightarrow> unit option \<Rightarrow> unit option \<Rightarrow> unit option" where
  "divide_units us unit1 unit2 =
     (case unit2 of
        None \<Rightarrow> unit1
      | Some u2 \<Rightarrow>
          (case unit1 of
             None \<Rightarrow> Some (unit_inverse us u2)
           | Some u1 \<Rightarrow> Some (unit_div us u1 u2)))"

text \<open>Two units computed in turn, then combined.\<close>

definition both_units ::
  "error + unit option \<Rightarrow> error + unit option \<Rightarrow>
   (unit option \<Rightarrow> unit option \<Rightarrow> error + unit option) \<Rightarrow> error + unit option" where
  "both_units r1 r2 g =
     (case r1 of
        Inl err \<Rightarrow> Inl err
      | Inr unit1 \<Rightarrow> (case r2 of Inl err \<Rightarrow> Inl err | Inr unit2 \<Rightarrow> g unit1 unit2))"

text \<open>\<open>Plus._eval_unit\<close>, \<open>Minus._eval_unit\<close> and \<open>If._eval_unit\<close> after the operands.\<close>

definition same_units :: "expr \<Rightarrow> string \<Rightarrow> unit option \<Rightarrow> unit option \<Rightarrow> error + unit option" where
  "same_units self message unit1 unit2 =
     (if unit1 = unit2 then Inr unit1
      else if unit1 = None then Inr unit2
      else if unit2 = None then Inr unit1
      else Inl (EvalUnitError self message))"

text \<open>\<open>And._eval_unit\<close> and \<open>Or._eval_unit\<close> after the operands.\<close>

definition dimensionless_operands ::
  "expr \<Rightarrow> string \<Rightarrow> unit option \<Rightarrow> unit option \<Rightarrow> error + unit option" where
  "dimensionless_operands self message unit1 unit2 =
     (if unit1 = None \<and> unit2 = None then Inr None
      else
        (let unit1' = (case unit1 of None \<Rightarrow> dimensionless | Some u \<Rightarrow> u);
             unit2' = (case unit2 of None \<Rightarrow> dimensionless | Some u \<Rightarrow> u)
         in if unit1' = unit2' \<and> unit2' = dimensionless then Inr (Some unit1')
            else Inl (EvalUnitError self message)))"

text \<open>
  The body of \<open>_eval_unit\<close> of an infix class after its two operands. \<open>exponent\<close> is
  what \<open>self._op2.eval()\<close> gives, which only \<open>Power\<close> asks for, and only when the
  unit of its first operand is known.
\<close>

fun infix_unit ::
  "units \<Rightarrow> fmt \<Rightarrow> mode \<Rightarrow> expr \<Rightarrow> infix_kind \<Rightarrow> error + value \<Rightarrow>
   unit option \<Rightarrow> unit option \<Rightarrow> error + unit option" where
  "infix_unit us f m self Plus' exponent unit1 unit2 =
     same_units self
       (''Addition requires equal units, got ''
        @ (case unit1 of Some u \<Rightarrow> clarify us u | None \<Rightarrow> [])
        @ '' and '' @ (case unit2 of Some u \<Rightarrow> clarify us u | None \<Rightarrow> []) @ ''.'')
       unit1 unit2"
| "infix_unit us f m self Minus exponent unit1 unit2 =
     same_units self
       (''Subtraction requires equal units, got ''
        @ (case unit1 of Some u \<Rightarrow> clarify us u | None \<Rightarrow> [])
        @ '' and '' @ (case unit2 of Some u \<Rightarrow> clarify us u | None \<Rightarrow> []) @ ''.'')
       unit1 unit2"
| "infix_unit us f m self Multiply exponent unit1 unit2 =
     (case unit1 of
        None \<Rightarrow> Inr unit2
      | Some u1 \<Rightarrow> (case unit2 of None \<Rightarrow> Inr unit1 | Some u2 \<Rightarrow> Inr (Some (unit_mul us u1 u2))))"
| "infix_unit us f m self Divide exponent unit1 unit2 = Inr (divide_units us unit1 unit2)"
| "infix_unit us f m self Quotient exponent unit1 unit2 = Inr (divide_units us unit1 unit2)"
| "infix_unit us f m self Remainder exponent unit1 unit2 = Inr unit1"
| "infix_unit us f m self Power' exponent unit1 unit2 =
     (if unit2 \<noteq> Some dimensionless \<and> m = UNIT_STRICT
      then Inl (EvalUnitError self ''Exponent in Power must be dimensionless.'')
      else (case unit1 of
              None \<Rightarrow> Inr None
            | Some u1 \<Rightarrow>
                (case exponent of
                   Inl err \<Rightarrow> Inl err
                 | Inr x \<Rightarrow> Inr (Some (unit_pow us u1 x)))))"
| "infix_unit us f m self And' exponent unit1 unit2 =
     dimensionless_operands self ''Operator `and` expects dimensionless operands.'' unit1 unit2"
| "infix_unit us f m self Or' exponent unit1 unit2 =
     dimensionless_operands self ''Operator `or` expects dimensionless operands.'' unit1 unit2"
| "infix_unit us f m self k exponent unit1 unit2 =
     (if unit1 = unit2 then Inr (if unit1 = None then None else Some dimensionless)
      else if unit1 = None \<or> unit2 = None then Inr (Some dimensionless)
      else Inl (EvalUnitError self
                  (''Condition '' @ infix_rep k @ '' requires equal units on both sides, got ''
                   @ (case unit1 of Some u \<Rightarrow> unit_str f u | None \<Rightarrow> ''None'')
                   @ '' and '' @ (case unit2 of Some u \<Rightarrow> unit_str f u | None \<Rightarrow> ''None'')
                   @ ''.'')))"

text \<open>
  \<open>Piecewise.__init__\<close> sorts the operands into the conditions \<open>_i\<close> and the
  expressions \<open>_e\<close>: condition, expression, ..., and the last expression.
\<close>

fun conditions :: "'a list \<Rightarrow> 'a list" where
  "conditions (c # v # d # rest) = c # conditions (d # rest)"
| "conditions xs = []"

fun pieces :: "'a list \<Rightarrow> 'a list" where
  "pieces (c # v # d # rest) = v # pieces (d # rest)"
| "pieces xs = xs"

text \<open>
  \<open>Piecewise._eval_unit\<close> after the operands: the set of the units of the
  expressions, without \<open>None\<close>, must have one element, or none if \<open>None\<close> was in it.
\<close>

definition piecewise_unit :: "expr \<Rightarrow> unit option list \<Rightarrow> error + unit option" where
  "piecewise_unit self us =
     (let known = remdups (filter (\<lambda>u. u \<noteq> None) us)
      in if None \<in> set us \<and> known = [] then Inr None
         else (case known of
                 [u] \<Rightarrow> Inr u
               | _ \<Rightarrow> Inl (EvalUnitError self
                              ''All branches of a piecewise() must have the same unit.'')))"

text \<open>
  The body of \<open>_eval_unit\<close> of a function class, on what \<open>_eval_unit\<close> of the
  operands gives.
\<close>

definition function_unit ::
  "units \<Rightarrow> fmt \<Rightarrow> mode \<Rightarrow> expr \<Rightarrow> func_kind \<Rightarrow> (error + unit option) list \<Rightarrow>
   error + unit option" where
  "function_unit us f m self k rs =
     (if k = If' then
        (case rs of
           [ri, rt, re] \<Rightarrow>
             (case ri of
                Inl err \<Rightarrow> Inl err
              | Inr ui \<Rightarrow>
                  both_units rt re
                    (\<lambda>unit2 unit3.
                       same_units self
                         (''Units of `then` and `else` part of an `if` must match. Got ''
                          @ (case unit2 of Some u \<Rightarrow> unit_str f u | None \<Rightarrow> ''None'')
                          @ '' and ''
                          @ (case unit3 of Some u \<Rightarrow> unit_str f u | None \<Rightarrow> ''None'')
                          @ ''.'')
                         unit2 unit3))
         | _ \<Rightarrow> Inl TypeError)
      else if k = Piecewise then
        (case all_or_first_error (conditions rs) of
           Inl err \<Rightarrow> Inl err
         | Inr cs \<Rightarrow>
             (case all_or_first_error (pieces rs) of
                Inl err \<Rightarrow> Inl err
              | Inr us' \<Rightarrow> piecewise_unit self us'))
      else if k = Log then
        (case rs of
           [] \<Rightarrow> Inl IndexError
         | [r] \<Rightarrow>
             (case r of
                Inl err \<Rightarrow> Inl err
              | Inr None \<Rightarrow> Inr None
              | Inr (Some u) \<Rightarrow>
                  (if m = UNIT_STRICT \<and> u \<noteq> dimensionless
                   then Inl (EvalUnitError self ''Log() requires a dimensionless operand.'')
                   else Inr (Some dimensionless)))
         | r1 # r2 # _ \<Rightarrow>
             both_units r1 r2
               (\<lambda>unit1 unit2.
                  if unit1 = None \<and> unit2 = None then Inr None
                  else if m = UNIT_STRICT
                          \<and> \<not> (unit1 = unit2 \<and> unit2 = Some dimensionless)
                  then Inl (EvalUnitError self ''Log() requires dimensionless operands.'')
                  else Inr (Some dimensionless)))
      else
        (case rs of
           [] \<Rightarrow> Inl IndexError
         | r # _ \<Rightarrow>
             (case r of
                Inl err \<Rightarrow> Inl err
              | Inr unit \<Rightarrow>
                  (if k = Floor \<or> k = Ceil \<or> k = Abs then Inr unit
                   else if k = Sqrt then
                     (case unit of None \<Rightarrow> Inr None | Some u \<Rightarrow> Inr (Some (unit_pow us u (F (Finite (1 / 2))))))
                   else
                     (case unit of
                        None \<Rightarrow> Inr None
                      | Some u \<Rightarrow>
                          (if m = UNIT_STRICT \<and> u \<noteq> dimensionless
                           then Inl (EvalUnitError self
                                       (''Function '' @ fname k
                                        @ ''() requires a dimensionless operand.''))
                           else Inr (Some dimensionless)))))))"

text \<open>
  The methods \<open>_eval_unit(mode)\<close>. A name has the unit of its variable, and a name
  that holds a string is dimensionless or of unknown unit. The number \<open>n\<close> is for the
  call of \<open>eval()\<close> in \<open>Power._eval_unit\<close>.
\<close>

fun eval_unit' :: "units \<Rightarrow> env \<Rightarrow> nat \<Rightarrow> mode \<Rightarrow> expr \<Rightarrow> error + unit option" where
  "eval_unit' us env n m (Number v u) =
     (if m = UNIT_STRICT \<and> u = None then Inr (Some dimensionless) else Inr u)"
| "eval_unit' us env n m (Name h) =
     (case h of
        Var v \<Rightarrow> Inr (var_unit us v m)
      | Str s \<Rightarrow> (if m = UNIT_STRICT then Inr (Some dimensionless) else Inr None))"
| "eval_unit' us env n m (Derivative a) =
     (case eval_unit' us env n m a of
        Inl err \<Rightarrow> Inl err
      | Inr unit1 \<Rightarrow>
          (case a of
             Name (Var v) \<Rightarrow>
               (case time_unit us v m of
                  None \<Rightarrow>
                    Inr (divide_units us unit1
                           (if m = UNIT_STRICT then Some dimensionless else None))
                | Some unit2 \<Rightarrow> Inr (divide_units us unit1 unit2))
           | _ \<Rightarrow> Inl AttributeError))"
| "eval_unit' us env n m (PartialDerivative a b) =
     both_units (eval_unit' us env n m a) (eval_unit' us env n m b)
       (\<lambda>unit1 unit2. Inr (divide_units us unit1 unit2))"
| "eval_unit' us env n m (InitialValue a) = eval_unit' us env n m a"
| "eval_unit' us env n m (Prefix k a) =
     (case eval_unit' us env n m a of
        Inl err \<Rightarrow> Inl err
      | Inr unit \<Rightarrow>
          (if k = Not' \<and> unit \<noteq> None \<and> unit \<noteq> Some dimensionless
           then Inl (EvalUnitError (Prefix k a) ''Operator `not` expects a dimensionless operand.'')
           else Inr unit))"
| "eval_unit' us env n m (Infix k a b) =
     both_units (eval_unit' us env n m a) (eval_unit' us env n m b)
       (infix_unit us (texts env) m (Infix k a b) k (eval env n b))"
| "eval_unit' us env n m (Function k ops) =
     function_unit us (texts env) m (Function k ops) k (map (eval_unit' us env n m) ops)"

text \<open>
  What \<open>eval_unit\<close> reads and writes on the expression object: the two attributes
  that \<open>Expression.__init__\<close> sets to \<open>None\<close>, and the attributes \<open>_unit_strict\<close>
  and \<open>_unit_tolerant\<close>, which an object has only once they are assigned. A slot holds
  \<open>None\<close>, a unit or an \<open>IncompatibleUnitError\<close> with its message.
\<close>

datatype slot = PyNone | PyUnit unit | PyError string

record attributes =
  cached_unit_tolerant :: slot
  cached_unit_strict :: slot
  unit_tolerant :: "slot option"
  unit_strict :: "slot option"

definition new_attributes :: attributes where
  "new_attributes =
     \<lparr> cached_unit_tolerant = PyNone, cached_unit_strict = PyNone,
       unit_tolerant = None, unit_strict = None \<rparr>"

text \<open>
  The \<open>try\<close> block of \<open>eval_unit\<close>: the result of \<open>_eval_unit\<close>, or for an
  \<open>EvalUnitError\<close> an \<open>IncompatibleUnitError\<close> with the message of
  \<open>_expr_error_message\<close>; any other exception passes.
\<close>

fun unit_or_error :: "env \<Rightarrow> nat \<Rightarrow> expr \<Rightarrow> error + unit option \<Rightarrow> error + slot" where
  "unit_or_error env n self (Inr None) = Inr PyNone"
| "unit_or_error env n self (Inr (Some u)) = Inr (PyUnit u)"
| "unit_or_error env n self (Inl (EvalUnitError expr err)) =
     (case expr_error_message env n self (EvalUnitError expr err) of
        Inl err' \<Rightarrow> Inl err'
      | Inr message \<Rightarrow> Inr (PyError message))"
| "unit_or_error env n self (Inl err) = Inl err"

text \<open>\<open>raise result\<close> if it is an \<open>IncompatibleUnitError\<close>, \<open>return result\<close> if not.\<close>

fun raise_or_return :: "slot \<Rightarrow> error + unit option" where
  "raise_or_return (PyError message) = Inl (IncompatibleUnitError message)"
| "raise_or_return (PyUnit u) = Inr (Some u)"
| "raise_or_return PyNone = Inr None"

text \<open>
  \<open>eval_unit(mode)\<close> on the expression \<open>self\<close> whose attributes are \<open>a\<close>: what
  the call returns or raises, and the attributes after it. The method reads
  \<open>_cached_unit_strict\<close> or \<open>_cached_unit_tolerant\<close>, and assigns what it has
  computed to \<open>_unit_strict\<close> or \<open>_unit_tolerant\<close>.
\<close>

definition eval_unit ::
  "units \<Rightarrow> env \<Rightarrow> nat \<Rightarrow> expr \<Rightarrow> mode \<Rightarrow> attributes \<Rightarrow> (error + unit option) \<times> attributes" where
  "eval_unit us env n self m a =
     (let result = (if m = UNIT_STRICT then cached_unit_strict a else cached_unit_tolerant a)
      in if result = PyNone then
           (case unit_or_error env n self (eval_unit' us env n m self) of
              Inl err \<Rightarrow> (Inl err, a)
            | Inr result' \<Rightarrow>
                (raise_or_return result',
                 if m = UNIT_STRICT then a\<lparr>unit_strict := Some result'\<rparr>
                 else a\<lparr>unit_tolerant := Some result'\<rparr>))
         else (raise_or_return result, a))"

text \<open>Units for the examples: the arithmetic on the exponents and the multiplier.\<close>

definition example_units :: units where
  "example_units =
     \<lparr> unit_mul = (\<lambda>u v. Unit (map2 (+) (exponents u) (exponents v)) (multiplier u + multiplier v)),
       unit_div = (\<lambda>u v. Unit (map2 (-) (exponents u) (exponents v)) (multiplier u - multiplier v)),
       unit_inverse = (\<lambda>u. Unit (map uminus (exponents u)) (- multiplier u)),
       unit_pow = (\<lambda>u x. Unit (map (\<lambda>e. e * val (exact x)) (exponents u))
                            (multiplier u * val (exact x))),
       clarify = (\<lambda>u. ''[?]''),
       var_unit = (\<lambda>v m. if m = UNIT_STRICT then Some dimensionless else None),
       time_unit = (\<lambda>v m. None) \<rparr>"

subsection \<open>Partial derivatives\<close>

text \<open>
  \<open>lhs.var.unit()\<close> in \<open>_partial_derivative_unit\<close>: \<open>lhs.var\<close>, without the call,
  is the bound method \<open>var\<close> (on an expression without that method, nothing), and a
  method has no attribute \<open>unit\<close>. Python raises \<open>AttributeError\<close>.
\<close>

definition lhs_var_unit :: "expr \<Rightarrow> error + unit option" where
  "lhs_var_unit lhs = Inl AttributeError"

text \<open>
  \<open>_partial_derivative_unit(lhs)\<close>: \<open>None\<close> if \<open>eval_unit\<close> raises
  \<open>IncompatibleUnitError\<close>; the \<open>try\<close> block lets any other exception pass. The
  expression \<open>self\<close> is taken with the attributes that its constructor set;
  \<open>eval_unit\<close> does not change the two it reads.
\<close>

definition partial_derivative_unit :: "units \<Rightarrow> env \<Rightarrow> nat \<Rightarrow> expr \<Rightarrow> expr \<Rightarrow> error + unit option" where
  "partial_derivative_unit us env n self lhs =
     (case fst (eval_unit us env n self UNIT_TOLERANT new_attributes) of
        Inl (IncompatibleUnitError message) \<Rightarrow> Inr None
      | Inl err \<Rightarrow> Inl err
      | Inr unit1 \<Rightarrow>
          (case lhs_var_unit lhs of
             Inl err \<Rightarrow> Inl err
           | Inr unit2 \<Rightarrow>
               (case (unit1, unit2) of
                  (Some u1, Some u2) \<Rightarrow> Inr (Some (unit_div us u1 u2))
                | _ \<Rightarrow> Inr None)))"

text \<open>
  \<open>var()\<close> of a name, a derivative, a partial derivative or an initial value: the
  value of the name (of the first name, of the wrapped name). No other class has the
  method.
\<close>

fun var :: "expr \<Rightarrow> error + handle" where
  "var (Name h) = Inr h"
| "var (Derivative (Name h)) = Inr h"
| "var (PartialDerivative (Name h) b) = Inr h"
| "var (InitialValue (Name h)) = Inr h"
| "var e = Inl AttributeError"

text \<open>A method of \<open>Variable\<close> called on the value of a name; a string has none.\<close>

definition on_variable :: "(nat \<Rightarrow> bool) \<Rightarrow> error + handle \<Rightarrow> error + bool" where
  "on_variable method r =
     (case r of
        Inl err \<Rightarrow> Inl err
      | Inr (Var v) \<Rightarrow> Inr (method v)
      | Inr (Str s) \<Rightarrow> Inl AttributeError)"

text \<open>\<open>Name._partial_derivative(lhs)\<close>. It asks \<open>lhs.var()\<close>, not its own variable.\<close>

definition Name_partial_derivative :: "env \<Rightarrow> expr \<Rightarrow> expr \<Rightarrow> error + expr option" where
  "Name_partial_derivative env self lhs =
     (if eq (texts env) lhs self then Inr (Some (Number 1 (Some dimensionless)))
      else (case on_variable (is_bound (vars env)) (var lhs) of
              Inl err \<Rightarrow> Inl err
            | Inr True \<Rightarrow> Inr None
            | Inr False \<Rightarrow>
                (case on_variable (is_constant (vars env)) (var lhs) of
                   Inl err \<Rightarrow> Inl err
                 | Inr True \<Rightarrow> Inr None
                 | Inr False \<Rightarrow> map_sum id Some (new_PartialDerivative self lhs))))"

text \<open>The derivatives of two operands, computed in turn, then combined.\<close>

definition both_derivatives ::
  "error + expr option \<Rightarrow> error + expr option \<Rightarrow>
   (expr option \<Rightarrow> expr option \<Rightarrow> error + expr option) \<Rightarrow> error + expr option" where
  "both_derivatives r1 r2 g =
     (case r1 of
        Inl err \<Rightarrow> Inl err
      | Inr op1 \<Rightarrow> (case r2 of Inl err \<Rightarrow> Inl err | Inr op2 \<Rightarrow> g op1 op2))"

text \<open>
  \<open>_partial_derivative\<close> of the infix classes, on the derivatives \<open>r1\<close> and \<open>r2\<close>
  of the operands \<open>a\<close> and \<open>b\<close>. \<open>Quotient\<close> returns \<open>None\<close> and the conditions
  raise without asking for them. \<open>Remainder\<close> calls \<open>Floor(self._op1, self._op2)\<close>,
  the constructor of \<open>Floor\<close> with two operands.
\<close>

fun infix_partial_derivative ::
  "infix_kind \<Rightarrow> expr \<Rightarrow> expr \<Rightarrow> error + expr option \<Rightarrow> error + expr option \<Rightarrow>
   error + expr option" where
  "infix_partial_derivative Plus' a b r1 r2 =
     both_derivatives r1 r2
       (\<lambda>op1 op2.
          case op1 of
            None \<Rightarrow> Inr op2
          | Some d1 \<Rightarrow>
              (case op2 of None \<Rightarrow> Inr op1 | Some d2 \<Rightarrow> Inr (Some (Infix Plus' d1 d2))))"
| "infix_partial_derivative Minus a b r1 r2 =
     both_derivatives r1 r2
       (\<lambda>op1 op2.
          case op2 of
            None \<Rightarrow> Inr op1
          | Some d2 \<Rightarrow>
              (case op1 of
                 None \<Rightarrow> Inr (Some (Prefix PrefixMinus d2))
               | Some d1 \<Rightarrow> Inr (Some (Infix Minus d1 d2))))"
| "infix_partial_derivative Multiply a b r1 r2 =
     both_derivatives r1 r2
       (\<lambda>op1 op2.
          case (op1, op2) of
            (None, None) \<Rightarrow> Inr None
          | (Some d1, None) \<Rightarrow> Inr (Some (Infix Multiply d1 b))
          | (None, Some d2) \<Rightarrow> Inr (Some (Infix Multiply a d2))
          | (Some d1, Some d2) \<Rightarrow>
              Inr (Some (Infix Plus' (Infix Multiply d1 b) (Infix Multiply a d2))))"
| "infix_partial_derivative Divide a b r1 r2 =
     both_derivatives r1 r2
       (\<lambda>op1 op2.
          case (op1, op2) of
            (None, None) \<Rightarrow> Inr None
          | (Some d1, None) \<Rightarrow> Inr (Some (Infix Divide d1 b))
          | (None, Some d2) \<Rightarrow>
              Inr (Some (Prefix PrefixMinus
                           (Infix Divide (Infix Multiply a d2)
                                         (Infix Power' b (Number 2 None)))))
          | (Some d1, Some d2) \<Rightarrow>
              Inr (Some (Infix Divide
                           (Infix Minus (Infix Multiply d1 b) (Infix Multiply a d2))
                           (Infix Power' b (Number 2 None)))))"
| "infix_partial_derivative Quotient a b r1 r2 = Inr None"
| "infix_partial_derivative Remainder a b r1 r2 =
     both_derivatives r1 r2
       (\<lambda>op1 op2.
          case (op1, op2) of
            (None, None) \<Rightarrow> Inr None
          | (None, Some d2) \<Rightarrow>
              (case new_Function Floor [a, b] of
                 Inl err \<Rightarrow> Inl err
               | Inr fl \<Rightarrow> Inr (Some (Prefix PrefixMinus (Infix Multiply d2 fl))))
          | (Some d1, None) \<Rightarrow> Inr (Some d1)
          | (Some d1, Some d2) \<Rightarrow>
              (case new_Function Floor [a, b] of
                 Inl err \<Rightarrow> Inl err
               | Inr fl \<Rightarrow> Inr (Some (Infix Minus d1 (Infix Multiply d2 fl)))))"
| "infix_partial_derivative Power' a b r1 r2 =
     both_derivatives r1 r2
       (\<lambda>op1 op2.
          case (op1, op2) of
            (None, None) \<Rightarrow> Inr None
          | (Some d1, None) \<Rightarrow>
              Inr (Some (Infix Multiply
                           (Infix Multiply b
                              (Infix Power' a (Infix Minus b (Number 1 None))))
                           d1))
          | (None, Some d2) \<Rightarrow>
              Inr (Some (Infix Divide (Infix Multiply (Infix Power' a b) d2)
                                      (Function Log [a])))
          | (Some d1, Some d2) \<Rightarrow>
              Inr (Some (Infix Multiply (Infix Power' a b)
                           (Infix Plus'
                              (Infix Multiply (Function Log [a]) d2)
                              (Infix Multiply (Infix Divide b a) d1)))))"
| "infix_partial_derivative k a b r1 r2 = Inl NotImplementedError"

text \<open>\<open>zero if op is None else op\<close>.\<close>

definition or_zero :: "expr \<Rightarrow> expr option \<Rightarrow> expr" where
  "or_zero zero op = (case op of None \<Rightarrow> zero | Some d \<Rightarrow> d)"

text \<open>
  The list \<open>new_ops\<close> that \<open>Piecewise._partial_derivative\<close> builds from the
  conditions \<open>_i\<close> and the derivatives \<open>ops\<close> of the expressions: condition and
  derivative in turn, and for the last place \<open>ops[i]\<close> with the \<open>i\<close> that the loop
  has left, the index of the last condition. \<open>zero\<close> is \<open>None\<close> when no derivative
  is.
\<close>

fun interleave :: "'a list \<Rightarrow> 'a list \<Rightarrow> 'a list" where
  "interleave (c # cs) (d # ds) = c # d # interleave cs ds"
| "interleave cs ds = []"

definition piecewise_new_ops ::
  "expr list \<Rightarrow> expr option list \<Rightarrow> expr option \<Rightarrow> expr option list" where
  "piecewise_new_ops conds ops zero =
     interleave (map Some conds) (map (\<lambda>op. if op = None then zero else op) ops)
     @ [if ops ! (length conds - 1) = None then zero else ops ! (length conds - 1)]"

text \<open>
  \<open>Piecewise._partial_derivative\<close> after the derivatives \<open>ops\<close> of the expressions
  \<open>_e\<close>: \<open>None\<close> if all are \<open>None\<close>; otherwise it makes the zero if one is
  \<open>None\<close>, fills \<open>new_ops\<close>, and ends. It has no \<open>return\<close> statement for
  \<open>new_ops\<close>, and a method that ends without one returns \<open>None\<close>.
\<close>

definition Piecewise_partial_derivative ::
  "units \<Rightarrow> env \<Rightarrow> nat \<Rightarrow> expr \<Rightarrow> expr \<Rightarrow> expr list \<Rightarrow> expr option list \<Rightarrow> error + expr option" where
  "Piecewise_partial_derivative us env n self lhs conds ops =
     (let n_zeroes = length (filter (\<lambda>op. op = None) ops)
      in if n_zeroes = length ops then Inr None
         else (case (if n_zeroes > 0
                     then map_sum id (\<lambda>u. Some (Number 0 u))
                            (partial_derivative_unit us env n self lhs)
                     else Inr None) of
                 Inl err \<Rightarrow> Inl err
               | Inr zero \<Rightarrow>
                   (let new_ops = piecewise_new_ops conds ops zero
                    in Inr None)))"

text \<open>
  \<open>_partial_derivative\<close> of the function classes, on the operands \<open>ops\<close> and what
  \<open>_partial_derivative\<close> gives for each. \<open>Log10._partial_derivative\<close> reads the
  variable \<open>op1\<close>, which it never assigns: \<open>NameError\<close>.
\<close>

definition function_partial_derivative ::
  "units \<Rightarrow> env \<Rightarrow> nat \<Rightarrow> func_kind \<Rightarrow> expr list \<Rightarrow> expr \<Rightarrow>
   (error + expr option) list \<Rightarrow> error + expr option" where
  "function_partial_derivative us env n k ops lhs rs =
     (let self = Function k ops in
      if k = Piecewise then
        (case all_or_first_error (pieces rs) of
           Inl err \<Rightarrow> Inl err
         | Inr ds \<Rightarrow> Piecewise_partial_derivative us env n self lhs (conditions ops) ds)
      else if k = If' then
        (case (ops, rs) of
           ([i, t, e], [ri, r1, r2]) \<Rightarrow>
             both_derivatives r1 r2
               (\<lambda>op1 op2.
                  case (op1, op2) of
                    (None, None) \<Rightarrow> Inr None
                  | (Some d1, Some d2) \<Rightarrow> Inr (Some (Function If' [i, d1, d2]))
                  | _ \<Rightarrow>
                      (case partial_derivative_unit us env n self lhs of
                         Inl err \<Rightarrow> Inl err
                       | Inr u \<Rightarrow>
                           Inr (Some (Function If'
                                        [i, or_zero (Number 0 u) op1, or_zero (Number 0 u) op2]))))
         | _ \<Rightarrow> Inl TypeError)
      else if k = Floor \<or> k = Ceil then Inr None
      else
        (case (ops, rs) of
           (op # ops', r # rs') \<Rightarrow>
             (if k = Log10 then Inl NameError
              else if k = Log \<and> ops' \<noteq> [] then
                (case (ops', rs') of
                   (op2 # _, r2 # _) \<Rightarrow>
                     both_derivatives r r2
                       (\<lambda>dop1 dop2.
                          case (dop1, dop2) of
                            (None, None) \<Rightarrow> Inr None
                          | (Some d1, None) \<Rightarrow>
                              Inr (Some (Infix Divide d1 (Infix Multiply op (Function Log [op2]))))
                          | (None, Some d2) \<Rightarrow>
                              Inr (Some (Prefix PrefixMinus
                                 (Infix Divide
                                    (Infix Multiply d2 (Function Log [op]))
                                    (Infix Multiply op2
                                       (Infix Power' (Function Log [op2]) (Number 2 None))))))
                          | (Some d1, Some d2) \<Rightarrow>
                              Inr (Some (Infix Minus
                                 (Infix Divide d1 (Infix Multiply op (Function Log [op2])))
                                 (Infix Divide
                                    (Infix Multiply d2 (Function Log [op]))
                                    (Infix Multiply op2
                                       (Infix Power' (Function Log [op2]) (Number 2 None)))))))
                 | _ \<Rightarrow> Inl IndexError)
              else
                (case r of
                   Inl err \<Rightarrow> Inl err
                 | Inr None \<Rightarrow> Inr None
                 | Inr (Some dop) \<Rightarrow>
                     (if k = Sqrt then
                        Inr (Some (Infix Divide dop (Infix Multiply (Number 2 None) self)))
                      else if k = Sin then
                        Inr (Some (Infix Multiply (Function Cos [op]) dop))
                      else if k = Cos then
                        Inr (Some (Prefix PrefixMinus (Infix Multiply (Function Sin [op]) dop)))
                      else if k = Tan then
                        Inr (Some (Infix Divide dop
                                     (Infix Power' (Function Cos [op]) (Number 2 None))))
                      else if k = ASin then
                        Inr (Some (Infix Divide dop
                                     (Function Sqrt
                                        [Infix Minus (Number 1 None)
                                           (Infix Power' op (Number 2 None))])))
                      else if k = ACos then
                        Inr (Some (Infix Divide (Prefix PrefixMinus dop)
                                     (Function Sqrt
                                        [Infix Minus (Number 1 None)
                                           (Infix Power' op (Number 2 None))])))
                      else if k = ATan then
                        Inr (Some (Infix Divide dop
                                     (Infix Plus' (Number 1 None)
                                        (Infix Power' op (Number 2 None)))))
                      else if k = Exp then
                        Inr (Some (Infix Multiply self dop))
                      else if k = Log then
                        Inr (Some (Infix Divide dop op))
                      else
                        (case (case fst (eval_unit us env n op UNIT_TOLERANT new_attributes) of
                                 Inl (IncompatibleUnitError message) \<Rightarrow> Inr None
                               | Inl err \<Rightarrow> Inl err
                               | Inr u \<Rightarrow> Inr u) of
                           Inl err \<Rightarrow> Inl err
                         | Inr unit \<Rightarrow>
                             Inr (Some (Function If'
                                          [Infix MoreEqual op (Number 0 unit),
                                           dop, Prefix PrefixMinus dop]))))))
         | _ \<Rightarrow> Inl IndexError))"

text \<open>
  The methods \<open>_partial_derivative(lhs)\<close>: \<open>None\<close> for a derivative that is zero.
  A condition, a partial derivative and an initial value raise
  \<open>NotImplementedError\<close>. \<open>Derivative._partial_derivative\<close> calls
  \<open>PartialDerivative(self, lhs)\<close>.
\<close>

fun partial_derivative' :: "units \<Rightarrow> env \<Rightarrow> nat \<Rightarrow> expr \<Rightarrow> expr \<Rightarrow> error + expr option" where
  "partial_derivative' us env n (Number v u) lhs = Inr None"
| "partial_derivative' us env n (Name h) lhs = Name_partial_derivative env (Name h) lhs"
| "partial_derivative' us env n (Derivative a) lhs =
     map_sum id Some (new_PartialDerivative (Derivative a) lhs)"
| "partial_derivative' us env n (PartialDerivative a b) lhs = Inl NotImplementedError"
| "partial_derivative' us env n (InitialValue a) lhs = Inl NotImplementedError"
| "partial_derivative' us env n (Prefix k a) lhs =
     (if k = Not' then Inl NotImplementedError
      else (case partial_derivative' us env n a lhs of
              Inl err \<Rightarrow> Inl err
            | Inr None \<Rightarrow> Inr None
            | Inr (Some op) \<Rightarrow> Inr (Some (Prefix k op))))"
| "partial_derivative' us env n (Infix k a b) lhs =
     infix_partial_derivative k a b
       (partial_derivative' us env n a lhs) (partial_derivative' us env n b lhs)"
| "partial_derivative' us env n (Function k ops) lhs =
     function_partial_derivative us env n k ops lhs
       (map (\<lambda>op. partial_derivative' us env n op lhs) ops)"

text \<open>
  \<open>isinstance(myokit.Name, lhs)\<close>, the first statement of \<open>partial_derivative\<close>:
  the arguments are the class and then the object. The second argument of
  \<open>isinstance\<close> must be a class, a tuple of classes or a union; \<open>lhs\<close> is an
  expression object, and Python raises \<open>TypeError\<close>.
\<close>

definition isinstance_Name_lhs :: "expr \<Rightarrow> error + bool" where
  "isinstance_Name_lhs lhs = Inl TypeError"

text \<open>
  Modelled from the spec: \<open>Variable.set_binding\<close> is not part of
  \<open>_expressions.py\<close>. The spec's glossary has a bound variable take its value from an
  external input and be treated as non-constant.
\<close>

definition set_binding :: "variables \<Rightarrow> nat \<Rightarrow> variables" where
  "set_binding vs v =
     vs\<lparr>is_bound := (is_bound vs)(v := True), is_constant := (is_constant vs)(v := False)\<rparr>"

text \<open>What \<open>partial_derivative\<close> returns: an expression, or the exception object of
  \<open>return ValueError(...)\<close>.\<close>

datatype returned = AnExpression expr | AnException error

text \<open>
  \<open>partial_derivative(lhs)\<close>, the public method. A constant variable is bound while
  \<open>_partial_derivative\<close> runs, and the \<open>finally\<close> block unbinds it again.
\<close>

definition partial_derivative :: "units \<Rightarrow> env \<Rightarrow> nat \<Rightarrow> expr \<Rightarrow> expr \<Rightarrow> error + returned" where
  "partial_derivative us env n self lhs =
     (case isinstance_Name_lhs lhs of
        Inl err \<Rightarrow> Inl err
      | Inr False \<Rightarrow> Inr (AnException ValueError)
      | Inr True \<Rightarrow>
          (case var lhs of
             Inl err \<Rightarrow> Inl err
           | Inr h \<Rightarrow>
               (case on_variable (is_constant (vars env)) (Inr h) of
                  Inl err \<Rightarrow> Inl err
                | Inr constant \<Rightarrow>
                    (let env' = (if constant
                                 then (case h of
                                         Var v \<Rightarrow> env\<lparr>vars := set_binding (vars env) v\<rparr>
                                       | Str s \<Rightarrow> env)
                                 else env)
                     in case partial_derivative' us env' n self lhs of
                          Inl err \<Rightarrow> Inl err
                        | Inr (Some derivative) \<Rightarrow> Inr (AnExpression derivative)
                        | Inr None \<Rightarrow>
                            (case partial_derivative_unit us env n self lhs of
                               Inl err \<Rightarrow> Inl err
                             | Inr u \<Rightarrow> Inr (AnExpression (Number 0 u)))))))"

section \<open>Properties\<close>

lemmas precedence_defs =
  FUNCTION_CALL_def POWER_def PREFIX_def PRODUCT_def SUM'_def CONDITIONAL_def
  CONDITION_AND_def LITERAL_def

subsection \<open>Rendering\<close>

lemma strip_float_1: "strip_float ''1.0'' = ''1''"
  by (simp add: strip_float_def last_chars_def but_last_chars_def)

lemma strip_float_2: "strip_float ''2.0'' = ''2''"
  by (simp add: strip_float_def last_chars_def but_last_chars_def)

lemma strip_float_3: "strip_float ''3.0'' = ''3''"
  by (simp add: strip_float_def last_chars_def but_last_chars_def)

lemma example_fmt_small:
  "strfloat example_fmt 1 = ''1.0''" "strfloat example_fmt 2 = ''2.0''"
  "strfloat example_fmt 3 = ''3.0''"
  by (simp_all add: example_fmt_def integral_strfloat_def str_nat.simps digit_char_def)

text \<open>
  C8. For every infix expression, \<open>code()\<close> writes the left operand in parentheses iff
  \<open>LITERAL < rbp(left) < rbp(self)\<close> and the right operand iff
  \<open>LITERAL < rbp(right) \<le> rbp(self)\<close>, with the operator between two spaces. So, with
  a float formatter that writes 1, 2 and 3 as Python does (\<open>1.0\<close>, \<open>2.0\<close>, \<open>3.0\<close>),
  \<open>Minus(Number(1), Minus(Number(2), Number(3)))\<close> renders as \<open>1 - (2 - 3)\<close> and
  \<open>Minus(Minus(Number(1), Number(2)), Number(3))\<close> as \<open>1 - 2 - 3\<close>.
\<close>

theorem infix_code_parentheses:
  assumes "strfloat f 1 = ''1.0''" and "strfloat f 2 = ''2.0''" and "strfloat f 3 = ''3.0''"
  shows "code f nm c (Infix k a b) =
           parenthesised (spec_left_parenthesised (Infix k a b) a) (code f nm c a)
           @ '' '' @ infix_rep k @ '' '' @
           parenthesised (spec_right_parenthesised (Infix k a b) b) (code f nm c b)
         \<and> code f nm None
             (Infix Minus (Number 1 None) (Infix Minus (Number 2 None) (Number 3 None)))
           = ''1 - (2 - 3)''
         \<and> code f nm None
             (Infix Minus (Infix Minus (Number 1 None) (Number 2 None)) (Number 3 None))
           = ''1 - 2 - 3''"
proof (intro conjI)
  show "code f nm c (Infix k a b) =
           parenthesised (spec_left_parenthesised (Infix k a b) a) (code f nm c a)
           @ '' '' @ infix_rep k @ '' '' @
           parenthesised (spec_right_parenthesised (Infix k a b) b) (code f nm c b)"
    by (simp add: code_def parenthesised_def spec_left_parenthesised_def
        spec_right_parenthesised_def)
  show "code f nm None
          (Infix Minus (Number 1 None) (Infix Minus (Number 2 None) (Number 3 None)))
        = ''1 - (2 - 3)''"
    using assms
    by (simp add: code_def number_str_def strip_float_1 strip_float_2 strip_float_3
        precedence_defs)
  show "code f nm None
          (Infix Minus (Infix Minus (Number 1 None) (Number 2 None)) (Number 3 None))
        = ''1 - 2 - 3''"
    using assms
    by (simp add: code_def number_str_def strip_float_1 strip_float_2 strip_float_3
        precedence_defs)
qed

theorem infix_code_parentheses_witness:
  "strfloat example_fmt 1 = ''1.0'' \<and> strfloat example_fmt 2 = ''2.0''
   \<and> strfloat example_fmt 3 = ''3.0''
   \<and> code example_fmt example_names None
        (Infix Multiply (Infix Plus' (Number 1 None) (Number 2 None)) (Number 3 None))
      = ''(1 + 2) * 3''
   \<and> code example_fmt example_names None
        (Infix Minus (Number 1 None) (Infix Minus (Number 2 None) (Number 3 None)))
      = ''1 - (2 - 3)''
   \<and> code example_fmt example_names None
        (Infix Minus (Infix Minus (Number 1 None) (Number 2 None)) (Number 3 None))
      = ''1 - 2 - 3''"
  using infix_code_parentheses [OF example_fmt_small, of example_names None Multiply
      "Infix Plus' (Number 1 None) (Number 2 None)" "Number 3 None"]
  by (simp add: example_fmt_small code_def number_str_def strip_float_1 strip_float_2
      strip_float_3 precedence_defs parenthesised_def spec_left_parenthesised_def
      spec_right_parenthesised_def)

subsection \<open>Flags and traversal\<close>

lemma has_partials_search:
  "has_partials e = contains_type_search e (Class KPartialDerivative)"
proof (induction e rule: has_partials.induct)
  case (1 e)
  show ?case
  proof (cases "type_of e = KPartialDerivative")
    case True
    then show ?thesis
      by (simp add: has_partials.simps [of e] contains_type_search.simps [of e] isinstance_def)
  next
    case False
    with 1 have "list_ex has_partials (operands e)
        = list_ex (\<lambda>op. contains_type_search op (Class KPartialDerivative)) (operands e)"
      by (simp add: list_ex_iff)
    with False show ?thesis
      by (simp add: has_partials.simps [of e] contains_type_search.simps [of e] isinstance_def)
  qed
qed

lemma has_initials_search:
  "has_initials e = contains_type_search e (Class KInitialValue)"
proof (induction e rule: has_initials.induct)
  case (1 e)
  show ?case
  proof (cases "type_of e = KInitialValue")
    case True
    then show ?thesis
      by (simp add: has_initials.simps [of e] contains_type_search.simps [of e] isinstance_def)
  next
    case False
    with 1 have "list_ex has_initials (operands e)
        = list_ex (\<lambda>op. contains_type_search op (Class KInitialValue)) (operands e)"
      by (simp add: list_ex_iff)
    with False show ?thesis
      by (simp add: has_initials.simps [of e] contains_type_search.simps [of e] isinstance_def)
  qed
qed

lemma contains_type_is_search: "contains_type e c = contains_type_search e c"
proof (induction e c rule: contains_type.induct)
  case (1 e c)
  show ?case
  proof (cases "isinstance e c")
    case True
    then show ?thesis
      by (simp add: contains_type.simps [of e] contains_type_search.simps [of e])
  next
    case inst: False
    show ?thesis
    proof (cases "c = Class KPartialDerivative")
      case True
      with inst show ?thesis
        using has_partials_search [of e]
        by (simp add: contains_type.simps [of e] contains_type_search.simps [of e] isinstance_def
            has_partials.simps [of e])
    next
      case npd: False
      show ?thesis
      proof (cases "c = Class KInitialValue")
        case True
        with inst show ?thesis
          using has_initials_search [of e]
          by (simp add: contains_type.simps [of e] contains_type_search.simps [of e] isinstance_def
              has_initials.simps [of e])
      next
        case False
        with 1 inst npd have "list_ex (\<lambda>op. contains_type op c) (operands e)
            = list_ex (\<lambda>op. contains_type_search op c) (operands e)"
          by (simp add: list_ex_iff)
        with inst npd False show ?thesis
          by (simp add: contains_type.simps [of e] contains_type_search.simps [of e])
      qed
    qed
  qed
qed

lemma search_walk: "contains_type_search e c = list_ex (\<lambda>n. isinstance n c) (walk e)"
proof (induction e c rule: contains_type_search.induct)
  case (1 e c)
  show ?case
  proof (cases "isinstance e c")
    case True
    then show ?thesis
      by (simp add: contains_type_search.simps [of e] walk.simps [of e])
  next
    case False
    with 1 have "list_ex (\<lambda>op. contains_type_search op c) (operands e)
       = list_ex (\<lambda>op. list_ex (\<lambda>n. isinstance n c) (walk op)) (operands e)"
      by (simp add: list_ex_iff)
    with False show ?thesis
      by (auto simp add: contains_type_search.simps [of e] walk.simps [of e] list_ex_iff)
  qed
qed

text \<open>
  C10. The flags that the constructors propagate upward agree with a traversal of the
  tree. \<open>contains_type(e, PartialDerivative)\<close> answers from \<open>_has_partials\<close> and is
  true iff a \<open>PartialDerivative\<close> node is among the nodes that \<open>walk\<close> visits;
  \<open>contains_type(e, InitialValue)\<close> answers from \<open>_has_initials\<close> and is true iff an
  \<open>InitialValue\<close> node is among them; and for every class the method with the two
  shortcuts gives what the depth-first search without them gives.
\<close>

theorem contains_type_flags_agree_with_search:
  "contains_type e (Class KPartialDerivative) = has_partials e
   \<and> has_partials e = list_ex (\<lambda>n. type_of n = KPartialDerivative) (walk e)
   \<and> contains_type e (Class KInitialValue) = has_initials e
   \<and> has_initials e = list_ex (\<lambda>n. type_of n = KInitialValue) (walk e)
   \<and> contains_type e c = contains_type_search e c"
proof (intro conjI)
  show "contains_type e (Class KPartialDerivative) = has_partials e"
    by (simp add: contains_type.simps [of e] has_partials.simps [of e] isinstance_def)
  show "has_partials e = list_ex (\<lambda>n. type_of n = KPartialDerivative) (walk e)"
    using search_walk [of e "Class KPartialDerivative"]
    by (simp add: has_partials_search isinstance_def)
  show "contains_type e (Class KInitialValue) = has_initials e"
    by (simp add: contains_type.simps [of e] has_initials.simps [of e] isinstance_def)
  show "has_initials e = list_ex (\<lambda>n. type_of n = KInitialValue) (walk e)"
    using search_walk [of e "Class KInitialValue"]
    by (simp add: has_initials_search isinstance_def)
  show "contains_type e c = contains_type_search e c"
    by (rule contains_type_is_search)
qed

subsection \<open>Equality, canonical form and cloning\<close>

lemma eq_refl: "eq f e e"
  by (induction e) simp_all

lemma eq_type: "eq f a b \<Longrightarrow> type_of a = type_of b"
  by (cases a; cases b) (simp_all split: if_splits)

lemma eq_polish: "eq f a b \<Longrightarrow> polish f a = polish f b"
proof (induction a arbitrary: b)
  case (Name h)
  then show ?case by (cases b) (simp_all add: polish_def)
next
  case (Derivative a)
  then show ?case by (cases b) (simp_all add: polish_def)
next
  case (PartialDerivative a1 a2)
  then show ?case by (cases b) (auto simp: polish_def)
next
  case (InitialValue a)
  then show ?case by (cases b) (simp_all add: polish_def)
qed (simp_all split: if_splits)





lemma digit_char_inj: "a < 10 \<Longrightarrow> b < 10 \<Longrightarrow> digit_char a = digit_char b \<Longrightarrow> a = b"
proof -
  assume a: "a < 10" and b: "b < 10" and e: "digit_char a = digit_char b"
  have d: "distinct ''0123456789''" by simp
  have l: "length ''0123456789'' = 10" by simp
  from e have "''0123456789'' ! a = ''0123456789'' ! b" by (simp add: digit_char_def)
  with d a b l show "a = b" by (metis nth_eq_iff_index_eq)
qed

lemma str_nat_small: "n < 10 \<Longrightarrow> str_nat n = [digit_char n]"
  by (simp add: str_nat.simps)

lemma str_nat_large: "\<not> n < 10 \<Longrightarrow> str_nat n = str_nat (n div 10) @ [digit_char (n mod 10)]"
  by (subst str_nat.simps) simp

lemma str_nat_not_Nil: "str_nat n \<noteq> []"
  by (cases "n < 10") (simp_all add: str_nat_small str_nat_large)

lemma str_nat_inj: "str_nat m = str_nat n \<Longrightarrow> m = n"
proof (induction m arbitrary: n rule: less_induct)
  case (less m)
  show ?case
  proof (cases "m < 10")
    case True
    show ?thesis
    proof (cases "n < 10")
      case n: True
      with True less.prems show ?thesis by (simp add: str_nat_small digit_char_inj)
    next
      case False
      with True less.prems str_nat_not_Nil [of "n div 10"] show ?thesis
        by (simp add: str_nat_small str_nat_large)
    qed
  next
    case m: False
    show ?thesis
    proof (cases "n < 10")
      case True
      with m less.prems str_nat_not_Nil [of "m div 10"] show ?thesis
        by (simp add: str_nat_small str_nat_large)
    next
      case False
      with m less.prems have 1: "str_nat (m div 10) = str_nat (n div 10)"
        and 2: "digit_char (m mod 10) = digit_char (n mod 10)"
        by (simp_all add: str_nat_large)
      from m have "m div 10 < m" by simp
      from less.IH [OF this 1] have d: "m div 10 = n div 10" .
      from 2 have "m mod 10 = n mod 10" by (intro digit_char_inj) simp_all
      with d show ?thesis by (metis div_mult_mod_eq)
    qed
  qed
qed

lemma polish_Name_inj: "polish f (Name h) = polish f (Name h') \<Longrightarrow> h = h'"
  by (cases h; cases h') (simp_all add: polish_def str_nat_inj)

lemma is_Name_cases: "is_Name e \<Longrightarrow> \<exists>h. e = Name h"
  by (cases e) simp_all

text \<open>
  For every class but \<open>PartialDerivative\<close>, the same class and the same canonical
  form make two expressions equal.
\<close>

lemma polish_equal_eq:
  assumes "type_of a = type_of b" and "polish f a = polish f b"
    and "constructed a" and "constructed b" and "type_of a \<noteq> KPartialDerivative"
  shows "eq f a b"
proof (cases a)
  case (Name h)
  with assms(1) obtain h' where "b = Name h'" by (cases b) simp_all
  with Name assms(2) polish_Name_inj show ?thesis by simp
next
  case (Derivative a1)
  with assms(1) obtain b1 where b: "b = Derivative b1" by (cases b) simp_all
  from Derivative assms(3) obtain h where h: "a1 = Name h"
    by (auto simp: new_Derivative_def split: if_splits dest: is_Name_cases)
  from b assms(4) obtain h' where h': "b1 = Name h'"
    by (auto simp: new_Derivative_def split: if_splits dest: is_Name_cases)
  from assms(2) Derivative b h h' have "polish f (Name h) = polish f (Name h')"
    by (simp add: polish_def)
  with Derivative b h h' polish_Name_inj show ?thesis by simp
next
  case (InitialValue a1)
  with assms(1) obtain b1 where b: "b = InitialValue b1" by (cases b) simp_all
  from InitialValue assms(3) obtain h where h: "a1 = Name h"
    by (auto simp: new_InitialValue_def split: if_splits dest: is_Name_cases)
  from b assms(4) obtain h' where h': "b1 = Name h'"
    by (auto simp: new_InitialValue_def split: if_splits dest: is_Name_cases)
  from assms(2) InitialValue b h h' have "polish f (Name h) = polish f (Name h')"
    by (simp add: polish_def)
  with InitialValue b h h' polish_Name_inj show ?thesis by simp
next
  case (PartialDerivative a1 a2)
  with assms(5) show ?thesis by simp
qed (use assms(1,2) in simp_all)

text \<open>
  C1. Equality is meant to be the same class and the same canonical form, for every
  class. The two partial derivatives below are of one class and have one canonical
  form, \<open>partial str:astr:bstr:c\<close>, and so one hash, yet \<open>__eq__\<close> of
  \<open>PartialDerivative\<close> tells them apart: their first names differ.
\<close>

theorem partial_derivatives_same_polish_not_equal:
  "constructed (PartialDerivative (Name (Str ''astr:b'')) (Name (Str ''c'')))
   \<and> constructed (PartialDerivative (Name (Str ''a'')) (Name (Str ''bstr:c'')))
   \<and> type_of (PartialDerivative (Name (Str ''astr:b'')) (Name (Str ''c'')))
     = type_of (PartialDerivative (Name (Str ''a'')) (Name (Str ''bstr:c'')))
   \<and> polish f (PartialDerivative (Name (Str ''astr:b'')) (Name (Str ''c'')))
     = ''partial str:astr:bstr:c''
   \<and> polish f (PartialDerivative (Name (Str ''a'')) (Name (Str ''bstr:c'')))
     = ''partial str:astr:bstr:c''
   \<and> hash hash_str f (PartialDerivative (Name (Str ''astr:b'')) (Name (Str ''c'')))
     = hash hash_str f (PartialDerivative (Name (Str ''a'')) (Name (Str ''bstr:c'')))
   \<and> \<not> eq f (PartialDerivative (Name (Str ''astr:b'')) (Name (Str ''c'')))
          (PartialDerivative (Name (Str ''a'')) (Name (Str ''bstr:c'')))"
  by (simp add: polish_def hash_def new_PartialDerivative_def)


subsection \<open>Evaluation\<close>


























lemma catching_Inr: "catching self r = Inr v \<longleftrightarrow> r = Inr v"
  by (cases r) (simp_all add: catching_def)

lemma both_mono:
  "both ra rb g = Inr v \<Longrightarrow> at_least ra ra' \<Longrightarrow> at_least rb rb' \<Longrightarrow> both ra' rb' g = Inr v"
  by (cases ra; cases rb) (simp_all add: both_def at_least_def)

lemma infix_eval_mono:
  assumes "infix_eval rt k ra rb = Inr v" and "at_least ra ra'" and "at_least rb rb'"
  shows "infix_eval rt k ra' rb' = Inr v"
proof -
  have b: "both ra rb g = Inr v \<Longrightarrow> both ra' rb' g = Inr v" for g
    using assms(2,3) by (rule both_mono [rotated])
  show ?thesis
  proof (cases k)
    case Divide
    with assms show ?thesis
      by (cases ra; cases rb) (auto simp: at_least_def split: if_splits)
  next
    case And'
    with assms show ?thesis
      by (cases ra) (auto simp: at_least_def split: if_splits)
  next
    case Or'
    with assms show ?thesis
      by (cases ra) (auto simp: at_least_def split: if_splits)
  next
    case Plus' with assms(1) b show ?thesis by simp
  next
    case Minus with assms(1) b show ?thesis by simp
  next
    case Multiply with assms(1) b show ?thesis by simp
  next
    case Quotient with assms(1) b show ?thesis by simp
  next
    case Remainder with assms(1) b show ?thesis by simp
  next
    case Power' with assms(1) b show ?thesis by simp
  next
    case Equal with assms(1) b show ?thesis by simp
  next
    case NotEqual with assms(1) b show ?thesis by simp
  next
    case More with assms(1) b show ?thesis by simp
  next
    case Less with assms(1) b show ?thesis by simp
  next
    case MoreEqual with assms(1) b show ?thesis by simp
  next
    case LessEqual with assms(1) b show ?thesis by simp
  qed
qed

lemma piecewise_eval_mono:
  "piecewise_eval rs = Inr v \<Longrightarrow> list_all2 at_least rs rs' \<Longrightarrow> piecewise_eval rs' = Inr v"
proof (induction rs arbitrary: rs' rule: piecewise_eval.induct)
  case (1 rc rv rd rest)
  from "1.prems"(2) obtain rc' rv' rd' rest' where
    rs': "rs' = rc' # rv' # rd' # rest'" and
    le: "at_least rc rc'" "at_least rv rv'" "list_all2 at_least (rd # rest) (rd' # rest')"
    by (auto simp: list_all2_Cons1)
  show ?case
  proof (cases rc)
    case (Inl err)
    with "1.prems" show ?thesis by simp
  next
    case (Inr c)
    with le have rc': "rc' = Inr c" by (simp add: at_least_def)
    show ?thesis
    proof (cases "truthy c")
      case True
      with Inr "1.prems" le rc' rs' show ?thesis by (simp add: at_least_def)
    next
      case False
      with Inr "1.prems" have "piecewise_eval (rd # rest) = Inr v" by simp
      from "1.IH" [OF Inr False this le(3)] Inr False rc' rs' show ?thesis by simp
    qed
  qed
next
  case (2 rd)
  from "2.prems"(2) obtain rd' where "rs' = [rd']" "at_least rd rd'"
    by (auto simp: list_all2_Cons1)
  with "2.prems"(1) show ?case by (simp add: at_least_def)
qed simp_all

lemma head_mono:
  assumes "list_all2 at_least rs rs'"
  shows "(rs = [] \<longleftrightarrow> rs' = []) \<and> (\<forall>a rest. rs = Inr a # rest \<longrightarrow> (\<exists>rest'. rs' = Inr a # rest'))"
  using assms by (cases rs; cases rs') (auto simp: at_least_def)

lemma unary_mono:
  assumes "(case rs of [] \<Rightarrow> Inl IndexError
            | r # _ \<Rightarrow> (case r of Inl err \<Rightarrow> Inl err | Inr a \<Rightarrow> g a)) = Inr v"
    and "list_all2 at_least rs rs'"
  shows "(case rs' of [] \<Rightarrow> Inl IndexError
            | r # _ \<Rightarrow> (case r of Inl err \<Rightarrow> Inl err | Inr a \<Rightarrow> g a)) = Inr v"
proof (cases rs)
  case Nil
  with assms(1) show ?thesis by simp
next
  case (Cons r rest)
  with assms(1) obtain a where "r = Inr a" "g a = Inr v" by (cases r) auto
  with Cons head_mono [OF assms(2)] show ?thesis by auto
qed

lemma function_eval_mono:
  assumes "function_eval rt k rs = Inr v" and "list_all2 at_least rs rs'"
  shows "function_eval rt k rs' = Inr v"
proof (cases k)
  case Piecewise
  with assms(1) have "piecewise_eval rs = Inr v" by simp
  from piecewise_eval_mono [OF this assms(2)] Piecewise show ?thesis by simp
next
  case If'
  with assms(1) obtain ri rt' re where rs: "rs = [ri, rt', re]"
    by (auto split: list.splits)
  with assms(2) obtain ri' rt'' re' where rs': "rs' = [ri', rt'', re']"
    and le: "at_least ri ri'" "at_least rt' rt''" "at_least re re'"
    by (auto simp: list_all2_Cons1)
  from assms(1) If' rs obtain c where c: "ri = Inr c" by (cases ri) auto
  with le have "ri' = Inr c" by (simp add: at_least_def)
  with assms(1) If' rs rs' c le show ?thesis by (auto simp: at_least_def split: if_splits)
next
  case Log
  show ?thesis
  proof (cases rs)
    case Nil
    with assms(1) Log show ?thesis by simp
  next
    case (Cons r1 rest)
    note c1 = this
    show ?thesis
    proof (cases rest)
      case Nil
      with c1 assms(2) obtain r1' where rs': "rs' = [r1']" and le: "at_least r1 r1'"
        by (auto simp: list_all2_Cons1)
      from assms(1) Log c1 Nil obtain a where "r1 = Inr a" by (cases r1) auto
      with le have "r1' = Inr a" by (simp add: at_least_def)
      with assms(1) Log c1 Nil rs' \<open>r1 = Inr a\<close> show ?thesis by simp
    next
      case (Cons r2 rest2)
      with c1 assms(2) obtain r1' r2' rest2' where rs': "rs' = r1' # r2' # rest2'"
        and le: "at_least r1 r1'" "at_least r2 r2'"
        by (auto simp: list_all2_Cons1)
      from assms(1) Log c1 Cons obtain a where a: "r1 = Inr a" by (cases r1) auto
      from assms(1) Log c1 Cons a obtain la where la: "numpy rt Log a = Inr la"
        by (cases "numpy rt Log a") auto
      from assms(1) Log c1 Cons a la obtain b where b: "r2 = Inr b" by (cases r2) auto
      from le a b have "r1' = Inr a" "r2' = Inr b" by (simp_all add: at_least_def)
      with assms(1) Log c1 Cons rs' a b show ?thesis by simp
    qed
  qed
next
  case Sqrt with assms(1) unary_mono [OF _ assms(2)] show ?thesis by simp
next
  case Sin with assms(1) unary_mono [OF _ assms(2)] show ?thesis by simp
next
  case Cos with assms(1) unary_mono [OF _ assms(2)] show ?thesis by simp
next
  case Tan with assms(1) unary_mono [OF _ assms(2)] show ?thesis by simp
next
  case ASin with assms(1) unary_mono [OF _ assms(2)] show ?thesis by simp
next
  case ACos with assms(1) unary_mono [OF _ assms(2)] show ?thesis by simp
next
  case ATan with assms(1) unary_mono [OF _ assms(2)] show ?thesis by simp
next
  case Exp with assms(1) unary_mono [OF _ assms(2)] show ?thesis by simp
next
  case Log10 with assms(1) unary_mono [OF _ assms(2)] show ?thesis by simp
next
  case Floor with assms(1) unary_mono [OF _ assms(2)] show ?thesis by simp
next
  case Ceil with assms(1) unary_mono [OF _ assms(2)] show ?thesis by simp
next
  case Abs with assms(1) unary_mono [OF _ assms(2)] show ?thesis by simp
qed

lemma eval'_mono: "eval' env n e = Inr v \<Longrightarrow> eval' env (Suc n) e = Inr v"
proof (induction n arbitrary: e v)
  case 0
  then show ?case by simp
next
  case (Suc n)
  have le: "at_least (eval' env n x) (eval' env (Suc n) x)" for x
    using Suc.IH by (simp add: at_least_def)
  show ?case
  proof (cases e)
    case (Number r u)
    with Suc.prems show ?thesis by simp
  next
    case (Prefix k a)
    with Suc.prems le [of a] show ?thesis
      by (cases k; cases "eval' env n a") (simp_all add: catching_Inr at_least_def)
  next
    case (Infix k a b)
    with Suc.prems have "infix_eval (run env) k (eval' env n a) (eval' env n b) = Inr v"
      by (simp add: catching_Inr)
    from infix_eval_mono [OF this le le] Infix show ?thesis
      by (simp add: catching_Inr)
  next
    case (Function k ops)
    with Suc.prems have "function_eval (run env) k (map (eval' env n) ops) = Inr v"
      by (simp add: catching_Inr split: if_splits)
    moreover have "list_all2 at_least (map (eval' env n) ops) (map (eval' env (Suc n)) ops)"
      using le by (simp add: list_all2_conv_all_nth)
    ultimately have "function_eval (run env) k (map (eval' env (Suc n)) ops) = Inr v"
      by (rule function_eval_mono)
    with Function show ?thesis by (simp add: catching_Inr)
  next
    case (Name h)
    with Suc.prems Suc.IH show ?thesis
      by (auto simp: catching_Inr split: sum.splits option.splits)
  next
    case (Derivative a)
    with Suc.prems Suc.IH show ?thesis
      by (auto simp: catching_Inr split: sum.splits option.splits)
  next
    case (PartialDerivative a b)
    with Suc.prems Suc.IH show ?thesis
      by (auto simp: catching_Inr split: sum.splits option.splits)
  next
    case (InitialValue a)
    with Suc.prems Suc.IH show ?thesis
      by (auto simp: catching_Inr split: sum.splits option.splits)
  qed
qed

lemma rhs_of_error: "rhs_of vs e = Inl err \<Longrightarrow> err = AttributeError"
  by (induction vs e rule: rhs_of.induct) (simp_all split: if_splits)

lemma first_found_error: "first_found rs = Inl err \<Longrightarrow> Inl err \<in> set rs"
  by (induction rs rule: first_found.induct) simp_all

lemma path_error: "path env n s t tr \<noteq> Inl (EvalError x y)"
proof (induction n arbitrary: s tr)
  case 0
  show ?case by simp
next
  case (Suc n)
  show ?case
  proof
    assume a: "path env (Suc n) s t tr = Inl (EvalError x y)"
    show False
    proof (cases "eq (texts env) s t")
      case True
      with a show False by simp
    next
      case ne: False
      show False
      proof (cases "isinstance s (Class KName)")
        case True
        with a ne Suc show False
          by (auto split: sum.splits option.splits dest: rhs_of_error)
      next
        case False
        with a ne have "first_found (map (\<lambda>child. path env n child t tr) (operands s))
            = Inl (EvalError x y)"
          by simp
        from first_found_error [OF this] obtain child where
          "path env n child t tr = Inl (EvalError x y)" by auto
        with Suc [of child tr] show False by simp
      qed
    qed
  qed
qed

lemma error_message_lines_error:
  "error_message_lines env n owner first expr \<noteq> Inl (EvalError x y)"
  using path_error [of env n owner expr "[]" x y]
  by (auto simp: error_message_lines_def Let_def split: sum.splits option.splits list.splits
      dest: rhs_of_error)

lemma expr_error_message_error:
  "expr_error_message env n owner (EvalError expr err) \<noteq> Inl (EvalError x y)"
  using error_message_lines_error [of env n owner _ expr x y]
  by (auto split: sum.splits)

lemma shown_error: "shown rt r \<noteq> Inl (EvalError x y)"
  by (induction rt r rule: shown.induct) simp_all

lemma operand_lines_error: "operand_lines env n i ops \<noteq> Inl (EvalError x y)"
  by (induction ops arbitrary: i) (auto split: sum.splits simp: shown_error)

lemma variable_lines_error: "variable_lines env n refs \<noteq> Inl (EvalError x y)"
  by (induction refs) (auto split: sum.splits option.splits if_splits simp: shown_error dest: rhs_of_error)

lemma numerical_error_not_EvalError: "numerical_error env n self expr err \<noteq> EvalError x y"
  using expr_error_message_error [of env n self expr err x y]
    operand_lines_error [of env n 0 "operands expr" x y]
    variable_lines_error [of env n _ x y]
  by (auto simp: numerical_error_def split: sum.splits)

lemma eval_never_EvalError: "eval env n e \<noteq> Inl (EvalError x y)"
proof (cases "eval' env n e")
  case (Inr v)
  then show ?thesis by (simp add: eval_def)
next
  case (Inl err)
  then show ?thesis
    by (cases err) (simp_all add: eval_def numerical_error_not_EvalError)
qed

lemma find_sub_suffix: "\<exists>k\<le>length p. find_sub (p @ x) x = Some k"
proof (induction p)
  case Nil
  show ?case by (cases x) simp_all
next
  case (Cons c p)
  then obtain k where "k \<le> length p" "find_sub (p @ x) x = Some k" by blast
  then show ?case by auto
qed

lemma str_nat_1_2: "str_nat (Suc 0) = ''1''" "str_nat (Suc (Suc 0)) = ''2''"
  by (simp_all add: str_nat.simps digit_char_def)

lemma divide_by_zero_EvalError:
  "eval' env n b = Inr d \<Longrightarrow> equals_zero d \<Longrightarrow>
   eval' env (Suc n) (Infix Divide a b) = Inl (EvalError (Infix Divide a b) ZeroDivisionError)"
  by (simp add: catching_def)

lemma divide_error_message:
  "\<exists>k\<le>2. expr_error_message env (Suc n) (Infix Divide a b) (EvalError (Infix Divide a b) ZeroDivisionError) =
     Inr (join_lines
           [str_error (run env) ZeroDivisionError,
            ''Encountered when evaluating'',
            ''  '' @ str_expr env (Infix Divide a b),
            replicate k CHR '' '' @ replicate (length (str_expr env (Infix Divide a b))) CHR ''~''])"
proof -
  obtain k where k: "k \<le> 2"
      "find_sub (''  '' @ str_expr env (Infix Divide a b)) (str_expr env (Infix Divide a b)) = Some k"
    using find_sub_suffix [of "''  ''" "str_expr env (Infix Divide a b)"] by auto
  have "expr_error_message env (Suc n) (Infix Divide a b) (EvalError (Infix Divide a b) ZeroDivisionError) =
     Inr (join_lines
           [str_error (run env) ZeroDivisionError,
            ''Encountered when evaluating'',
            ''  '' @ str_expr env (Infix Divide a b),
            replicate k CHR '' '' @ replicate (length (str_expr env (Infix Divide a b))) CHR ''~''])"
    using k(2) by (simp add: error_message_lines_def Let_def eq_refl)
  with k(1) show ?thesis by blast
qed

text \<open>
  What holds of a zero denominator: \<open>eval()\<close> raises \<open>NumericalError\<close> if
  evaluating the numerator by itself, and listing the variables the expression refers
  to, raise nothing but the internal \<open>EvalError\<close>. The message holds, in this order:
  the text of the \<open>ZeroDivisionError\<close>, \<open>Encountered when evaluating\<close>, the
  expression after two spaces, a line that marks it with \<open>~\<close>,
  \<open>With the following operands:\<close>, the numerator's value or \<open>another error\<close> after
  \<open>(1)\<close>, the denominator's value after \<open>(2)\<close>, and the lines of the variables if
  there are any. And no call of \<open>eval()\<close>, on any expression, raises the internal
  \<open>EvalError\<close>.
\<close>

lemma divide_by_zero_message:
  assumes "eval' env n b = Inr d" and "equals_zero d"
    and "shown (run env) (eval' env (Suc n) a) = Inr sa"
    and "variable_lines env (Suc n)
           (iter_set (run env) (references (texts env) (Infix Divide a b))) = Inr vls"
  shows "(\<exists>k\<le>2. eval env (Suc n) (Infix Divide a b) =
     Inl (NumericalError (join_lines
       ([join_lines
           [str_error (run env) ZeroDivisionError,
            ''Encountered when evaluating'',
            ''  '' @ str_expr env (Infix Divide a b),
            replicate k CHR '' '' @ replicate (length (str_expr env (Infix Divide a b))) CHR ''~''],
         ''With the following operands:'',
         ''  (1) '' @ sa,
         ''  (2) '' @ str_value (run env) d]
        @ (if references (texts env) (Infix Divide a b) = [] then []
           else ''And the following variables:'' # vls)))))
     \<and> eval env m e \<noteq> Inl (EvalError x y)"
proof -
  let ?D = "Infix Divide a b"
  from divide_error_message [of env n a b] obtain k where k: "k \<le> 2"
    and msg: "expr_error_message env (Suc n) ?D (EvalError ?D ZeroDivisionError) =
     Inr (join_lines
           [str_error (run env) ZeroDivisionError,
            ''Encountered when evaluating'',
            ''  '' @ str_expr env ?D,
            replicate k CHR '' '' @ replicate (length (str_expr env ?D)) CHR ''~''])"
    by auto
  have again: "eval' env (Suc n) b = Inr d"
    using assms(1) by (rule eval'_mono)
  have ols: "operand_lines env (Suc n) 0 (operands ?D)
      = Inr [''  (1) '' @ sa, ''  (2) '' @ str_value (run env) d]"
    using assms(3) again by (simp add: str_nat_1_2)
  have "eval env (Suc n) ?D = Inl (numerical_error env (Suc n) ?D ?D ZeroDivisionError)"
    using divide_by_zero_EvalError [OF assms(1,2)] by (simp add: eval_def)
  also have "numerical_error env (Suc n) ?D ?D ZeroDivisionError = NumericalError (join_lines
       ([join_lines
           [str_error (run env) ZeroDivisionError,
            ''Encountered when evaluating'',
            ''  '' @ str_expr env ?D,
            replicate k CHR '' '' @ replicate (length (str_expr env ?D)) CHR ''~''],
         ''With the following operands:'',
         ''  (1) '' @ sa,
         ''  (2) '' @ str_value (run env) d]
        @ (if references (texts env) ?D = [] then []
           else ''And the following variables:'' # vls)))"
    unfolding numerical_error_def msg ols assms(4) by simp
  finally show ?thesis using k eval_never_EvalError [of env m e x y] by blast
qed

text \<open>
  C6. A \<open>Divide\<close> whose denominator evaluates to zero is to raise
  \<open>NumericalError\<close>, with the values of both operands in the message and a
  placeholder for an operand that fails. It does not if the numerator, evaluated by
  itself for the message, raises an exception that is no \<open>ArithmeticError\<close> and no
  \<open>ValueError\<close>: the classes catch those two only, so the exception is never made
  an \<open>EvalError\<close>, and the handler of \<open>eval()\<close> lets it pass. Python 3 gives a
  complex number for \<open>(-8.0) ** 0.5\<close>, and \<open>TypeError\<close> for \<open>//\<close> and for \<open><\<close>
  on a complex number. Then \<open>eval()\<close> of
  \<open>Divide(Quotient(Power(Number(-8), Number(0.5)), Number(2)), Number(0))\<close>, whose
  denominator is zero, raises \<open>TypeError\<close>, and so does it with
  \<open>Less(Power(Number(-8), Number(0.5)), Number(0))\<close> for the numerator.
\<close>

theorem divide_by_zero_raises_TypeError:
  assumes "power (run env) (F (Finite (- 8))) (F (Finite (1 / 2))) = Inr (Z re im)"
  shows "constructed
           (Infix Divide
              (Infix Quotient (Infix Power' (Number (- 8) None) (Number (1 / 2) None)) (Number 2 None))
              (Number 0 None))
       \<and> eval' env (Suc n) (Number 0 None) = Inr (F (Finite 0))
       \<and> equals_zero (F (Finite 0))
       \<and> eval env (Suc (Suc (Suc n)))
           (Infix Divide
              (Infix Quotient (Infix Power' (Number (- 8) None) (Number (1 / 2) None)) (Number 2 None))
              (Number 0 None))
         = Inl TypeError
       \<and> eval env (Suc (Suc (Suc n)))
           (Infix Divide
              (Infix Less (Infix Power' (Number (- 8) None) (Number (1 / 2) None)) (Number 0 None))
              (Number 0 None))
         = Inl TypeError"
proof -
  let ?P = "Infix Power' (Number (- 8) None) (Number (1 / 2) None)"
  have failing: "eval env (Suc (Suc (Suc n))) (Infix Divide a (Number 0 None)) = Inl TypeError"
    if "eval' env (Suc (Suc (Suc n))) a = Inl TypeError" for a
  proof -
    let ?D = "Infix Divide a (Number 0 None)"
    have raised: "eval' env (Suc (Suc (Suc n))) ?D = Inl (EvalError ?D ZeroDivisionError)"
      by (simp add: catching_def)
    from divide_error_message [of env "Suc (Suc n)" a "Number 0 None"] obtain message where
      msg: "expr_error_message env (Suc (Suc (Suc n))) ?D (EvalError ?D ZeroDivisionError)
        = Inr message"
      by auto
    have ols: "operand_lines env (Suc (Suc (Suc n))) 0 (operands ?D) = Inl TypeError"
      using that by simp
    show ?thesis
      unfolding eval_def raised eval_outcome.simps numerical_error_def msg ols by simp
  qed
  have q: "eval' env (Suc (Suc (Suc n))) (Infix Quotient ?P (Number 2 None)) = Inl TypeError"
    using assms by (simp add: catching_def both_def py_floordiv_def dispatch_def)
  have l: "eval' env (Suc (Suc (Suc n))) (Infix Less ?P (Number 0 None)) = Inl TypeError"
    using assms by (simp add: catching_def both_def py_compare_def dispatch_def)
  have c: "constructed (Infix Divide (Infix Quotient ?P (Number 2 None)) (Number 0 None))"
    by simp
  from c failing [OF q] failing [OF l] show ?thesis by simp
qed

theorem divide_by_zero_raises_TypeError_witness:
  "power (run example_env) (F (Finite (- 8))) (F (Finite (1 / 2)))
     = Inr (Z (Finite (7025470172532439 / 40564819207303340847894502572032))
              (Finite (6369051672525773 / 2251799813685248)))
   \<and> eval example_env (Suc (Suc (Suc 0)))
        (Infix Divide
           (Infix Quotient (Infix Power' (Number (- 8) None) (Number (1 / 2) None)) (Number 2 None))
           (Number 0 None))
      = Inl TypeError"
proof -
  have h: "power (run example_env) (F (Finite (- 8))) (F (Finite (1 / 2)))
     = Inr (Z (Finite (7025470172532439 / 40564819207303340847894502572032))
              (Finite (6369051672525773 / 2251799813685248)))"
    by (simp add: example_env_def example_runtime_def example_power_def)
  from h divide_by_zero_raises_TypeError [OF h, of 0] show ?thesis by simp
qed

subsection \<open>Partial derivatives\<close>

text \<open>
  C2. The public \<open>partial_derivative(e, lhs)\<close> is meant to return a zero \<open>Number\<close>
  when \<open>e\<close> does not depend on \<open>lhs\<close>. Its first statement calls \<open>isinstance\<close> with
  the arguments exchanged, so for every expression \<open>e\<close> and every expression object
  \<open>lhs\<close> it raises \<open>TypeError\<close>; for \<open>Number(1)\<close> the internal method returns
  \<open>None\<close>, the zero that the public method was to turn into a number. Nor does
  \<open>_partial_derivative_unit\<close> ever return a unit for that zero: it asks for
  \<open>lhs.var.unit()\<close>.
\<close>

theorem partial_derivative_raises_TypeError:
  "partial_derivative us env n e lhs = Inl TypeError
   \<and> partial_derivative' us env n (Number 1 None) lhs = Inr None
   \<and> partial_derivative_unit us env n e lhs \<noteq> Inr (Some u)"
proof (intro conjI)
  show "partial_derivative us env n e lhs = Inl TypeError"
    by (simp add: partial_derivative_def isinstance_Name_lhs_def)
  show "partial_derivative' us env n (Number 1 None) lhs = Inr None"
    by simp
  show "partial_derivative_unit us env n e lhs \<noteq> Inr (Some u)"
    by (simp add: partial_derivative_unit_def lhs_var_unit_def split: sum.splits error.splits)
qed

text \<open>
  C3. \<open>Remainder._partial_derivative\<close> is meant to return \<open>a' - b' * floor(a / b)\<close>.
  It returns \<open>a'\<close> when \<open>b'\<close> is \<open>None\<close>, but when \<open>b'\<close> is an expression it calls
  \<open>Floor\<close> with the two operands \<open>a\<close> and \<open>b\<close>, and the constructor raises
  \<open>IntegrityError\<close>: \<open>Floor\<close> takes one. So for \<open>5 % x\<close> and for \<open>x % x\<close>,
  differentiated with respect to \<open>x\<close>.
\<close>

theorem Remainder_partial_derivative_raises_IntegrityError:
  "partial_derivative' us env n (Infix Remainder a b) lhs =
     both_derivatives (partial_derivative' us env n a lhs) (partial_derivative' us env n b lhs)
       (\<lambda>op1 op2. case op2 of None \<Rightarrow> Inr op1 | Some d2 \<Rightarrow> Inl IntegrityError)
   \<and> partial_derivative' us env n (Infix Remainder (Number 5 None) (Name (Var 1))) (Name (Var 1))
     = Inl IntegrityError
   \<and> partial_derivative' us env n (Infix Remainder (Name (Var 1)) (Name (Var 1))) (Name (Var 1))
     = Inl IntegrityError"
proof (intro conjI)
  have "(case (op1, op2) of
           (None, None) \<Rightarrow> Inr None
         | (None, Some d2) \<Rightarrow>
             (case new_Function Floor [a, b] of
                Inl err \<Rightarrow> Inl err
              | Inr fl \<Rightarrow> Inr (Some (Prefix PrefixMinus (Infix Multiply d2 fl))))
         | (Some d1, None) \<Rightarrow> Inr (Some d1)
         | (Some d1, Some d2) \<Rightarrow>
             (case new_Function Floor [a, b] of
                Inl err \<Rightarrow> Inl err
              | Inr fl \<Rightarrow> Inr (Some (Infix Minus d1 (Infix Multiply d2 fl)))))
        = (case op2 of None \<Rightarrow> Inr op1 | Some d2 \<Rightarrow> Inl IntegrityError)" for op1 op2
    by (cases op1; cases op2) (simp_all add: new_Function_def Function_init_def)
  then show "partial_derivative' us env n (Infix Remainder a b) lhs =
     both_derivatives (partial_derivative' us env n a lhs) (partial_derivative' us env n b lhs)
       (\<lambda>op1 op2. case op2 of None \<Rightarrow> Inr op1 | Some d2 \<Rightarrow> Inl IntegrityError)"
    by simp
  show "partial_derivative' us env n (Infix Remainder (Number 5 None) (Name (Var 1))) (Name (Var 1))
     = Inl IntegrityError"
    by (simp add: Name_partial_derivative_def both_derivatives_def new_Function_def
        Function_init_def)
  show "partial_derivative' us env n (Infix Remainder (Name (Var 1)) (Name (Var 1))) (Name (Var 1))
     = Inl IntegrityError"
    by (simp add: Name_partial_derivative_def both_derivatives_def new_Function_def
        Function_init_def)
qed

text \<open>
  C4. \<open>Piecewise._partial_derivative\<close> is meant to return a \<open>Piecewise\<close> of the
  derivatives of the branches. It builds the operands of one and ends without
  returning them: no call on a \<open>Piecewise\<close> returns an expression. For
  \<open>piecewise(x < 0, x, x)\<close>, whose branches both have the derivative 1 with respect
  to \<open>x\<close>, the method returns \<open>None\<close>.
\<close>

theorem Piecewise_partial_derivative_returns_None:
  "partial_derivative' us env n (Function Piecewise ops) lhs \<noteq> Inr (Some d)
   \<and> constructed
       (Function Piecewise [Infix Less (Name (Var 1)) (Number 0 None), Name (Var 1), Name (Var 1)])
   \<and> partial_derivative' us env n (Name (Var 1)) (Name (Var 1))
     = Inr (Some (Number 1 (Some dimensionless)))
   \<and> partial_derivative' us env n
       (Function Piecewise [Infix Less (Name (Var 1)) (Number 0 None), Name (Var 1), Name (Var 1)])
       (Name (Var 1))
     = Inr None"
proof (intro conjI)
  show "partial_derivative' us env n (Function Piecewise ops) lhs \<noteq> Inr (Some d)"
    by (simp add: function_partial_derivative_def Piecewise_partial_derivative_def Let_def
        split: sum.splits)
  show "constructed
       (Function Piecewise [Infix Less (Name (Var 1)) (Number 0 None), Name (Var 1), Name (Var 1)])"
    by (simp add: new_Function_def Function_init_def)
  show "partial_derivative' us env n (Name (Var 1)) (Name (Var 1))
     = Inr (Some (Number 1 (Some dimensionless)))"
    by (simp add: Name_partial_derivative_def)
  show "partial_derivative' us env n
       (Function Piecewise [Infix Less (Name (Var 1)) (Number 0 None), Name (Var 1), Name (Var 1)])
       (Name (Var 1))
     = Inr None"
    by (simp add: function_partial_derivative_def Piecewise_partial_derivative_def Let_def
        Name_partial_derivative_def)
qed

subsection \<open>The unit cache\<close>

text \<open>
  C5. \<open>eval_unit\<close> is meant to keep its result in the cache slot of the mode and to
  read it there on the next call. It reads \<open>_cached_unit_strict\<close> and
  \<open>_cached_unit_tolerant\<close> but assigns to \<open>_unit_strict\<close> and \<open>_unit_tolerant\<close>:
  no call changes a cache slot, and on an object as constructed the second call
  computes what a first call would, in whatever environment it runs (the same unit or
  error only if nothing the rules read has changed). For a number with a unit, the
  strict call returns the unit and leaves \<open>_cached_unit_strict\<close> at \<open>None\<close>.
\<close>

theorem eval_unit_leaves_cache_empty:
  "cached_unit_strict (snd (eval_unit us env n self m a)) = cached_unit_strict a
   \<and> cached_unit_tolerant (snd (eval_unit us env n self m a)) = cached_unit_tolerant a
   \<and> fst (eval_unit us' env' n' self m (snd (eval_unit us env n self m new_attributes)))
     = fst (eval_unit us' env' n' self m new_attributes)
   \<and> eval_unit us env n (Number 1 (Some u)) UNIT_STRICT new_attributes
     = (Inr (Some u),
        \<lparr> cached_unit_tolerant = PyNone, cached_unit_strict = PyNone,
          unit_tolerant = None, unit_strict = Some (PyUnit u) \<rparr>)"
proof (intro conjI)
  show "cached_unit_strict (snd (eval_unit us env n self m a)) = cached_unit_strict a"
    by (simp add: eval_unit_def Let_def split: sum.splits)
  show "cached_unit_tolerant (snd (eval_unit us env n self m a)) = cached_unit_tolerant a"
    by (simp add: eval_unit_def Let_def split: sum.splits)
  show "fst (eval_unit us' env' n' self m (snd (eval_unit us env n self m new_attributes)))
     = fst (eval_unit us' env' n' self m new_attributes)"
    by (simp add: eval_unit_def Let_def new_attributes_def split: sum.splits)
  show "eval_unit us env n (Number 1 (Some u)) UNIT_STRICT new_attributes
     = (Inr (Some u),
        \<lparr> cached_unit_tolerant = PyNone, cached_unit_strict = PyNone,
          unit_tolerant = None, unit_strict = Some (PyUnit u) \<rparr>)"
    by (simp add: eval_unit_def new_attributes_def)
qed

end
